theory Spec2Isabelle
  imports Main "HOL-Library.AList"
begin

section \<open>JavaScript values\<close>

text \<open>
  The relay and the peer client pass JSON documents around as plain JavaScript values.
  A value is modelled by \<open>jsval\<close>; numbers are restricted to integers (message ids,
  error codes, counters and timestamps are all integers), strings are sequences of
  characters, and an object is the list of its own properties in insertion order.
\<close>

datatype jsval =
    JUndefined
  | JNull
  | JBool bool
  | JNum int
  | JStr string
  | JArr "jsval list"
  | JObj "(string \<times> jsval) list"

text \<open>\<open>typeof v === 'object'\<close>: true of objects, arrays and \<open>null\<close>.\<close>

definition typeof_object :: "jsval \<Rightarrow> bool" where
  "typeof_object v = (case v of JNull \<Rightarrow> True | JArr _ \<Rightarrow> True | JObj _ \<Rightarrow> True | _ \<Rightarrow> False)"

text \<open>
  \<open>k in v\<close> and \<open>v[k]\<close> for the field names of the protocol (\<open>jsonrpc\<close>, \<open>id\<close>,
  \<open>method\<close>, \<open>params\<close>, \<open>type\<close>, \<open>tools\<close>, \<open>sessionId\<close>, ...). None of them is an index or
  \<open>length\<close>, so an array or a primitive carries none of them.
\<close>

definition in_op :: "string \<Rightarrow> jsval \<Rightarrow> bool" where
  "in_op k v = (case v of JObj kvs \<Rightarrow> map_of kvs k \<noteq> None | _ \<Rightarrow> False)"

definition get_prop :: "jsval \<Rightarrow> string \<Rightarrow> jsval" where
  "get_prop v k =
     (case v of
        JObj kvs \<Rightarrow> (case map_of kvs k of None \<Rightarrow> JUndefined | Some x \<Rightarrow> x)
      | _ \<Rightarrow> JUndefined)"

text \<open>\<open>{...v, k: x}\<close>: a copy of the object \<open>v\<close> with property \<open>k\<close> set to \<open>x\<close>.\<close>

definition spread_with :: "jsval \<Rightarrow> string \<Rightarrow> jsval \<Rightarrow> jsval" where
  "spread_with v k x =
     (case v of JObj kvs \<Rightarrow> JObj (AList.update k x kvs) | _ \<Rightarrow> JObj [(k, x)])"

text \<open>Decimal printing of numbers, as \<open>String(n)\<close> and template literals do.\<close>

definition digit_chars :: string where
  "digit_chars = ''0123456789''"

fun string_of_nat :: "nat \<Rightarrow> string" where
  "string_of_nat n =
     (if n < 10 then [digit_chars ! n]
      else string_of_nat (n div 10) @ [digit_chars ! (n mod 10)])"

declare string_of_nat.simps [simp del]

definition string_of_int :: "int \<Rightarrow> string" where
  "string_of_int i =
     (if i < 0 then CHR ''-'' # string_of_nat (nat (- i)) else string_of_nat (nat i))"

fun join :: "string \<Rightarrow> string list \<Rightarrow> string" where
  "join sep [] = []"
| "join sep [x] = x"
| "join sep (x # y # ys) = x @ sep @ join sep (y # ys)"

text \<open>\<open>String(v)\<close>.\<close>

fun js_String :: "jsval \<Rightarrow> string" where
  "js_String JUndefined = ''undefined''"
| "js_String JNull = ''null''"
| "js_String (JBool b) = (if b then ''true'' else ''false'')"
| "js_String (JNum n) = string_of_int n"
| "js_String (JStr s) = s"
| "js_String (JArr xs) =
     join '','' (map (\<lambda>x. if x = JUndefined \<or> x = JNull then [] else js_String x) xs)"
| "js_String (JObj kvs) = ''[object Object]''"

text \<open>\<open>str.startsWith(p)\<close> and \<open>str.slice(0, n)\<close>.\<close>

definition startsWith :: "string \<Rightarrow> string \<Rightarrow> bool" where
  "startsWith str p = (take (length p) str = p)"

definition slice0 :: "nat \<Rightarrow> string \<Rightarrow> string" where
  "slice0 n str = take n str"

subsection \<open>\<open>JSON.stringify\<close>\<close>

definition hex_chars :: string where
  "hex_chars = ''0123456789abcdef''"

definition QuoteJSONChar :: "char \<Rightarrow> string" where
  "QuoteJSONChar c =
     (if c = CHR 0x08 then [CHR 0x5C, CHR ''b'']
      else if c = CHR 0x09 then [CHR 0x5C, CHR ''t'']
      else if c = CHR 0x0A then [CHR 0x5C, CHR ''n'']
      else if c = CHR 0x0C then [CHR 0x5C, CHR ''f'']
      else if c = CHR 0x0D then [CHR 0x5C, CHR ''r'']
      else if c = CHR 0x22 then [CHR 0x5C, CHR 0x22]
      else if c = CHR 0x5C then [CHR 0x5C, CHR 0x5C]
      else if (of_char c :: nat) < 32
        then [CHR 0x5C, CHR ''u'', CHR ''0'', CHR ''0'',
              hex_chars ! (of_char c div 16), hex_chars ! (of_char c mod 16)]
      else [c])"

definition QuoteJSONString :: "string \<Rightarrow> string" where
  "QuoteJSONString s = [CHR 0x22] @ concat (map QuoteJSONChar s) @ [CHR 0x22]"

text \<open>
  The serialisation of a value with indentation unit \<open>gap\<close> at current indentation
  \<open>ind\<close>; \<open>None\<close> stands for the result \<open>undefined\<close>. An \<open>undefined\<close> array element is
  printed as \<open>null\<close>, an \<open>undefined\<close> property is left out.
\<close>

fun SerializeJSONProperty :: "string \<Rightarrow> string \<Rightarrow> jsval \<Rightarrow> string option"
  and SerializeJSONElements :: "string \<Rightarrow> string \<Rightarrow> jsval list \<Rightarrow> string list"
  and SerializeJSONMembers :: "string \<Rightarrow> string \<Rightarrow> (string \<times> jsval) list \<Rightarrow> string list"
where
  "SerializeJSONProperty gap ind JUndefined = None"
| "SerializeJSONProperty gap ind JNull = Some ''null''"
| "SerializeJSONProperty gap ind (JBool b) = Some (if b then ''true'' else ''false'')"
| "SerializeJSONProperty gap ind (JNum n) = Some (string_of_int n)"
| "SerializeJSONProperty gap ind (JStr s) = Some (QuoteJSONString s)"
| "SerializeJSONProperty gap ind (JArr xs) =
     (let partial = SerializeJSONElements gap (ind @ gap) xs in
      Some (if partial = [] then ''[]''
            else if gap = [] then ''['' @ join '','' partial @ '']''
            else ''['' @ [CHR 0x0A] @ ind @ gap @ join ('','' @ [CHR 0x0A] @ ind @ gap) partial
                 @ [CHR 0x0A] @ ind @ '']''))"
| "SerializeJSONProperty gap ind (JObj kvs) =
     (let partial = SerializeJSONMembers gap (ind @ gap) kvs in
      Some (if partial = [] then ''{}''
            else if gap = [] then ''{'' @ join '','' partial @ ''}''
            else ''{'' @ [CHR 0x0A] @ ind @ gap @ join ('','' @ [CHR 0x0A] @ ind @ gap) partial
                 @ [CHR 0x0A] @ ind @ ''}''))"
| "SerializeJSONElements gap ind [] = []"
| "SerializeJSONElements gap ind (x # xs) =
     (case SerializeJSONProperty gap ind x of None \<Rightarrow> ''null'' | Some s \<Rightarrow> s)
       # SerializeJSONElements gap ind xs"
| "SerializeJSONMembers gap ind [] = []"
| "SerializeJSONMembers gap ind ((k, v) # kvs) =
     (case SerializeJSONProperty gap ind v of
        None \<Rightarrow> SerializeJSONMembers gap ind kvs
      | Some s \<Rightarrow> (QuoteJSONString k @ '':'' @ (if gap = [] then [] else '' '') @ s)
                    # SerializeJSONMembers gap ind kvs)"

text \<open>\<open>JSON.stringify(v, null, space)\<close>; \<open>JSON.stringify(v)\<close> is the case \<open>space = 0\<close>.\<close>

definition JSON_stringify :: "nat \<Rightarrow> jsval \<Rightarrow> jsval" where
  "JSON_stringify space v =
     (case SerializeJSONProperty (replicate (min space 10) CHR '' '') [] v of
        None \<Rightarrow> JUndefined
      | Some s \<Rightarrow> JStr s)"

text \<open>
  \<open>JSON.parse\<close> belongs to the engine and is a parameter of the functions that call it:
  a function from the text to the decoded value, or to the message of the
  \<open>SyntaxError\<close> it throws. For evaluation at concrete documents, a decoder is given
  by a finite table of documents; it rejects every other text.
\<close>

type_synonym json_decoder = "string \<Rightarrow> string + jsval"

definition decoder_of_table :: "(string \<times> jsval) list \<Rightarrow> json_decoder" where
  "decoder_of_table table data =
     (case map_of table data of None \<Rightarrow> Inl ''Unexpected token'' | Some v \<Rightarrow> Inr v)"


section \<open>Error codes and error classes (errors.ts)\<close>

definition PARSE_ERROR :: int where "PARSE_ERROR = - 32700"
definition INVALID_REQUEST :: int where "INVALID_REQUEST = - 32600"
definition METHOD_NOT_FOUND :: int where "METHOD_NOT_FOUND = - 32601"
definition INVALID_PARAMS :: int where "INVALID_PARAMS = - 32602"
definition INTERNAL_ERROR :: int where "INTERNAL_ERROR = - 32603"
definition TIMEOUT_ERROR :: int where "TIMEOUT_ERROR = - 32001"
definition SESSION_ERROR :: int where "SESSION_ERROR = - 32002"
definition EXECUTION_ERROR :: int where "EXECUTION_ERROR = - 32003"
definition TOOL_NOT_FOUND :: int where "TOOL_NOT_FOUND = - 32004"
definition VALIDATION_ERROR :: int where "VALIDATION_ERROR = - 32005"
definition PERMISSION_ERROR :: int where "PERMISSION_ERROR = - 32006"

datatype error_class =
    BTCPErrorClass
  | BTCPConnectionErrorClass
  | BTCPTimeoutErrorClass
  | BTCPSessionErrorClass
  | BTCPValidationErrorClass
  | BTCPExecutionErrorClass
  | BTCPToolNotFoundErrorClass
  | BTCPPermissionErrorClass
  | BTCPParseErrorClass
  | BTCPInvalidRequestErrorClass
  | BTCPMethodNotFoundErrorClass

text \<open>
  An instance of \<open>BTCPError\<close> or of one of its subclasses: its class, its message and
  its code. The diagnostic \<open>data\<close> payload is left out: no path of the program reads it.
\<close>

record BTCPError =
  err_class :: error_class
  err_message :: string
  err_code :: int



definition BTCPExecutionError :: "string \<Rightarrow> BTCPError" where
  "BTCPExecutionError message =
     \<lparr>err_class = BTCPExecutionErrorClass, err_message = message,
      err_code = EXECUTION_ERROR\<rparr>"

text \<open>The message is the template \<open>`Tool not found: ${toolName}`\<close>.\<close>

definition BTCPToolNotFoundError :: "jsval \<Rightarrow> BTCPError" where
  "BTCPToolNotFoundError toolName =
     \<lparr>err_class = BTCPToolNotFoundErrorClass,
      err_message = ''Tool not found: '' @ js_String toolName,
      err_code = TOOL_NOT_FOUND\<rparr>"

definition BTCPParseError :: "string \<Rightarrow> BTCPError" where
  "BTCPParseError message =
     \<lparr>err_class = BTCPParseErrorClass, err_message = message, err_code = PARSE_ERROR\<rparr>"

definition BTCPInvalidRequestError :: "string \<Rightarrow> BTCPError" where
  "BTCPInvalidRequestError message =
     \<lparr>err_class = BTCPInvalidRequestErrorClass, err_message = message,
      err_code = INVALID_REQUEST\<rparr>"

text \<open>
  What a \<open>throw\<close> or a rejected promise carries: an instance of one of the classes above,
  another instance of \<open>Error\<close> (with its message), or a value that is no \<open>Error\<close>.
\<close>

datatype js_thrown =
    ThrownBTCP BTCPError
  | ThrownError string
  | ThrownValue jsval

text \<open>\<open>error instanceof Error ? error.message : String(error)\<close>\<close>

definition message_of_thrown :: "js_thrown \<Rightarrow> string" where
  "message_of_thrown t =
     (case t of
        ThrownBTCP e \<Rightarrow> err_message e
      | ThrownError m \<Rightarrow> m
      | ThrownValue v \<Rightarrow> js_String v)"


section \<open>Protocol utilities (protocol.ts)\<close>

definition createResponse :: "jsval \<Rightarrow> jsval \<Rightarrow> jsval" where
  "createResponse rid result =
     JObj [(''jsonrpc'', JStr ''2.0''), (''id'', rid), (''result'', result)]"

definition createErrorResponse :: "jsval \<Rightarrow> int \<Rightarrow> string \<Rightarrow> jsval \<Rightarrow> jsval" where
  "createErrorResponse rid code message data =
     JObj [(''jsonrpc'', JStr ''2.0''), (''id'', rid),
           (''error'', JObj ([(''code'', JNum code), (''message'', JStr message)]
                             @ (if data \<noteq> JUndefined then [(''data'', data)] else [])))]"

definition createTextContent :: "jsval \<Rightarrow> jsval" where
  "createTextContent text = JObj [(''type'', JStr ''text''), (''text'', text)]"

definition createImageContent :: "jsval \<Rightarrow> string \<Rightarrow> jsval" where
  "createImageContent data mimeType =
     JObj [(''type'', JStr ''image''), (''data'', data), (''mimeType'', JStr mimeType)]"

definition createToolCallResponse :: "jsval \<Rightarrow> jsval \<Rightarrow> jsval" where
  "createToolCallResponse rid content =
     JObj [(''jsonrpc'', JStr ''2.0''), (''id'', rid),
           (''result'', JObj [(''content'', content), (''isError'', JBool False)])]"

text \<open>The third parameter of the source has the default value \<open>-32603\<close>.\<close>

definition createToolCallErrorResponse_code :: "jsval \<Rightarrow> string \<Rightarrow> int \<Rightarrow> jsval" where
  "createToolCallErrorResponse_code rid errorMessage code =
     JObj [(''jsonrpc'', JStr ''2.0''), (''id'', rid),
           (''result'', JObj [(''content'', JArr [createTextContent (JStr errorMessage)]),
                              (''isError'', JBool True)]),
           (''error'', JObj [(''code'', JNum code), (''message'', JStr errorMessage)])]"

definition createToolCallErrorResponse :: "jsval \<Rightarrow> string \<Rightarrow> jsval" where
  "createToolCallErrorResponse rid errorMessage =
     createToolCallErrorResponse_code rid errorMessage (- 32603)"

definition createPongResponse :: "int \<Rightarrow> jsval \<Rightarrow> jsval" where
  "createPongResponse now rid =
     createResponse rid (JObj [(''pong'', JBool True), (''timestamp'', JNum now)])"

definition isValidJsonRpcMessage :: "jsval \<Rightarrow> bool" where
  "isValidJsonRpcMessage obj =
     (if \<not> typeof_object obj \<or> obj = JNull then False
      else get_prop obj ''jsonrpc'' = JStr ''2.0'')"

definition parseMessage :: "json_decoder \<Rightarrow> string \<Rightarrow> BTCPError + jsval" where
  "parseMessage JSON_parse data =
     (case JSON_parse data of
        Inl syntaxError \<Rightarrow>
          Inl (BTCPParseError ''Failed to parse JSON-RPC message'')
      | Inr parsed \<Rightarrow>
          if \<not> isValidJsonRpcMessage parsed
          then Inl (BTCPParseError ''Invalid JSON-RPC message structure'')
          else Inr parsed)"

definition serializeMessage :: "jsval \<Rightarrow> jsval" where
  "serializeMessage message = JSON_stringify 0 message"

definition isRequest :: "jsval \<Rightarrow> bool" where
  "isRequest message = (in_op ''id'' message \<and> in_op ''method'' message)"

definition isResponse :: "jsval \<Rightarrow> bool" where
  "isResponse message = (in_op ''id'' message \<and> \<not> in_op ''method'' message)"

definition isNotification :: "jsval \<Rightarrow> bool" where
  "isNotification message = (\<not> in_op ''id'' message \<and> in_op ''method'' message)"

text \<open>
  \<open>generateMessageId\<close> reads the clock and increments the module's counter; it returns
  the id and the new counter.
\<close>

definition generateMessageId :: "int \<Rightarrow> nat \<Rightarrow> string \<times> nat" where
  "generateMessageId now messageCounter =
     (''btcp-'' @ string_of_int now @ ''-'' @ string_of_nat (messageCounter + 1),
      messageCounter + 1)"


section \<open>Tool executor (executor.ts)\<close>

definition isBTCPContent :: "jsval \<Rightarrow> bool" where
  "isBTCPContent v =
     (if \<not> typeof_object v \<or> v = JNull then False
      else (get_prop v ''type'' = JStr ''text'' \<or>
            get_prop v ''type'' = JStr ''image'' \<or>
            get_prop v ''type'' = JStr ''resource''))"

text \<open>The character class \<open>[A-Za-z0-9+/=]\<close>.\<close>

definition base64_class :: "char \<Rightarrow> bool" where
  "base64_class c =
     (let n = (of_char c :: nat) in
        (65 \<le> n \<and> n \<le> 90) \<or> (97 \<le> n \<and> n \<le> 122) \<or> (48 \<le> n \<and> n \<le> 57)
        \<or> c = CHR ''+'' \<or> c = CHR ''/'' \<or> c = CHR ''='')"

text \<open>
  \<open>/^[C]{n,}$/.test(s)\<close> for a character class \<open>C\<close>: the whole of \<open>s\<close> is made of at
  least \<open>n\<close> characters of the class.
\<close>

definition test_class_at_least :: "(char \<Rightarrow> bool) \<Rightarrow> nat \<Rightarrow> string \<Rightarrow> bool" where
  "test_class_at_least C n s = (n \<le> length s \<and> list_all C s)"

definition isBase64Image :: "string \<Rightarrow> bool" where
  "isBase64Image str =
     (startsWith str ''data:image/'' \<or> test_class_at_least base64_class 100 (slice0 200 str))"

definition detectImageMimeType :: "string \<Rightarrow> string" where
  "detectImageMimeType data =
     (if startsWith data ''data:image/png'' then ''image/png''
      else if startsWith data ''data:image/jpeg'' then ''image/jpeg''
      else if startsWith data ''data:image/gif'' then ''image/gif''
      else if startsWith data ''data:image/webp'' then ''image/webp''
      else if startsWith data ''data:image/svg'' then ''image/svg+xml''
      else ''image/png'')"

definition normalizeResult :: "jsval \<Rightarrow> jsval" where
  "normalizeResult result =
     (case result of
        JArr xs \<Rightarrow>
          (if length xs > 0 \<and> isBTCPContent (hd xs) then result
           else JArr [createTextContent (JSON_stringify 2 result)])
      | _ \<Rightarrow>
          if isBTCPContent result then JArr [result]
          else (case result of
                  JStr s \<Rightarrow>
                    if isBase64Image s
                    then JArr [createImageContent result (detectImageMimeType s)]
                    else JArr [createTextContent result]
                | JObj kvs \<Rightarrow> JArr [createTextContent (JSON_stringify 2 result)]
                | _ \<Rightarrow> JArr [createTextContent (JStr (js_String result))]))"


text \<open>
  A tool handler is an asynchronous function of the arguments. The model takes the way
  its promise settles: fulfilled with a value, rejected with what was thrown, or never
  settled.
\<close>

datatype 'a settled = Fulfilled 'a | Rejected js_thrown | NeverSettles

type_synonym ToolHandler = "jsval \<Rightarrow> jsval settled"

record ToolExecutor =
  handlers :: "(string \<times> ToolHandler) list"
  toolDefinitions :: "(string \<times> jsval) list"

text \<open>\<open>this.handlers.get(name)\<close>: the keys of the map are strings.\<close>

definition handlers_get :: "ToolExecutor \<Rightarrow> jsval \<Rightarrow> ToolHandler option" where
  "handlers_get ex name = (case name of JStr n \<Rightarrow> map_of (handlers ex) n | _ \<Rightarrow> None)"

definition instanceof_BTCPToolNotFoundError :: "js_thrown \<Rightarrow> bool" where
  "instanceof_BTCPToolNotFoundError t =
     (case t of ThrownBTCP e \<Rightarrow> err_class e = BTCPToolNotFoundErrorClass | _ \<Rightarrow> False)"

definition execute :: "ToolExecutor \<Rightarrow> jsval \<Rightarrow> jsval \<Rightarrow> jsval settled" where
  "execute ex name args =
     (case handlers_get ex name of
        None \<Rightarrow> Rejected (ThrownBTCP (BTCPToolNotFoundError name))
      | Some handler \<Rightarrow>
          (case handler args of
             Fulfilled result \<Rightarrow> Fulfilled (normalizeResult result)
           | Rejected error \<Rightarrow>
               if instanceof_BTCPToolNotFoundError error then Rejected error
               else Rejected (ThrownBTCP (BTCPExecutionError (message_of_thrown error)))
           | NeverSettles \<Rightarrow> NeverSettles))"


section \<open>Peer client (client.ts)\<close>

record BTCPClientConfig =
  serverUrl :: string
  config_sessionId :: string
  autoReconnect :: bool
  reconnectDelay :: nat
  maxReconnectAttempts :: nat
  connectionTimeout :: nat

text \<open>
  An entry of \<open>pendingRequests\<close> holds the \<open>resolve\<close> and \<open>reject\<close> functions of the
  promise that \<open>request\<close> returned, and the handle of its timer. The promise is named by
  its index in the list of promises the client has created.
\<close>

record PendingRequest =
  promise :: nat
  timeout :: nat

datatype event_arg = ArgValue jsval | ArgError BTCPError

text \<open>
  The client object, together with the objects it holds references to: the
  \<open>EventSource\<close> objects (their \<open>readyState\<close>), the promises returned by \<open>request\<close>, the
  running request timers (handle, request id, promise, method), the delays of the
  reconnections scheduled, the bodies POSTed and the events emitted to subscribers.
\<close>

record BTCPClient =
  client_config :: BTCPClientConfig
  eventSource :: "nat option"
  client_sessionId :: string
  executor :: ToolExecutor
  connected :: bool
  reconnectAttempts :: nat
  pendingRequests :: "(jsval \<times> PendingRequest) list"
  client_messageCounter :: nat
  readyState :: "nat \<Rightarrow> nat"
  promises :: "jsval settled option list"
  requestTimers :: "(nat \<times> jsval \<times> nat \<times> string) list"
  nextTimer :: nat
  scheduledReconnects :: "nat list"
  posted :: "jsval list"
  emitted :: "(string \<times> event_arg list) list"


text \<open>
  \<open>emit\<close> calls the subscribers of the event, each inside its own \<open>try\<close>; the model
  records the event.
\<close>

definition emit :: "string \<Rightarrow> event_arg list \<Rightarrow> BTCPClient \<Rightarrow> BTCPClient" where
  "emit event args c = c\<lparr>emitted := emitted c @ [(event, args)]\<rparr>"

text \<open>Settling a promise has an effect only the first time.\<close>

definition settle :: "nat \<Rightarrow> jsval settled \<Rightarrow> BTCPClient \<Rightarrow> BTCPClient" where
  "settle p outcome c =
     (if p < length (promises c) \<and> promises c ! p = None
      then c\<lparr>promises := (promises c)[p := Some outcome]\<rparr> else c)"

definition clearTimeout :: "nat \<Rightarrow> BTCPClient \<Rightarrow> BTCPClient" where
  "clearTimeout t c = c\<lparr>requestTimers := AList.delete t (requestTimers c)\<rparr>"


definition js_truthy :: "jsval \<Rightarrow> bool" where
  "js_truthy v =
     (v \<noteq> JUndefined \<and> v \<noteq> JNull \<and> v \<noteq> JBool False \<and> v \<noteq> JNum 0 \<and> v \<noteq> JStr [])"

text \<open>\<open>sendMessage\<close> POSTs the serialised message; how the POST ends is an event of its own.\<close>

definition sendMessage :: "jsval \<Rightarrow> BTCPClient \<Rightarrow> BTCPClient" where
  "sendMessage message c = c\<lparr>posted := posted c @ [serializeMessage message]\<rparr>"

text \<open>
  \<open>request\<close>, up to the point where it returns its promise: the id is allocated, the
  timer started, the entry stored and the POST issued. It returns the new promise.
\<close>

definition request :: "int \<Rightarrow> string \<Rightarrow> jsval \<Rightarrow> BTCPClient \<Rightarrow> nat \<times> BTCPClient" where
  "request now method params c =
     (let (rid, counter) = generateMessageId now (client_messageCounter c);
          req = JObj ([(''jsonrpc'', JStr ''2.0''), (''id'', JStr rid), (''method'', JStr method)]
                      @ (if js_truthy params then [(''params'', params)] else []));
          p = length (promises c);
          t = nextTimer c;
          c1 = c\<lparr>client_messageCounter := counter,
                 promises := promises c @ [None],
                 requestTimers := requestTimers c @ [(t, JStr rid, p, method)],
                 nextTimer := t + 1\<rparr>;
          c2 = c1\<lparr>pendingRequests :=
                    AList.update (JStr rid) \<lparr>promise = p, timeout = t\<rparr> (pendingRequests c1)\<rparr>
      in (p, sendMessage req c2))"


text \<open>The \<open>catch\<close> callback of \<open>request\<close>, when the POST of request \<open>rid\<close> has failed.\<close>

definition requestSendFailed :: "jsval \<Rightarrow> nat \<Rightarrow> nat \<Rightarrow> js_thrown \<Rightarrow> BTCPClient \<Rightarrow> BTCPClient" where
  "requestSendFailed rid p t error c =
     (let c1 = clearTimeout t c;
          c2 = c1\<lparr>pendingRequests := AList.delete rid (pendingRequests c1)\<rparr>
      in settle p (Rejected error) c2)"

text \<open>The \<open>resolve\<close> function stored in a pending entry.\<close>

definition pending_resolve :: "nat \<Rightarrow> jsval \<Rightarrow> BTCPClient \<Rightarrow> BTCPClient" where
  "pending_resolve p response c =
     (if js_truthy (get_prop response ''error'')
      then settle p (Rejected (ThrownError
             (let m = get_prop (get_prop response ''error'') ''message''
              in if m = JUndefined then [] else js_String m))) c
      else settle p (Fulfilled (get_prop response ''result'')) c)"

definition handleResponse :: "jsval \<Rightarrow> BTCPClient \<Rightarrow> BTCPClient" where
  "handleResponse response c =
     (case map_of (pendingRequests c) (get_prop response ''id'') of
        Some pending \<Rightarrow>
          (let c1 = clearTimeout (timeout pending) c;
               c2 = c1\<lparr>pendingRequests :=
                         AList.delete (get_prop response ''id'') (pendingRequests c1)\<rparr>
           in pending_resolve (promise pending) response c2)
      | None \<Rightarrow> c)"


text \<open>
  \<open>handleToolCall\<close>: the way the promise it returns settles, and the client afterwards.
  Destructuring \<open>params\<close> throws a \<open>TypeError\<close> when the request has none (the text of the
  message is the engine's).
\<close>

definition handleToolCall :: "jsval \<Rightarrow> BTCPClient \<Rightarrow> jsval settled \<times> BTCPClient" where
  "handleToolCall req c =
     (let rid = get_prop req ''id''; params = get_prop req ''params'' in
      if params = JUndefined \<or> params = JNull
      then (Rejected (ThrownError ''Cannot destructure property name of params''), c)
      else
        (let name = get_prop params ''name'';
             args = (if get_prop params ''arguments'' = JUndefined then JObj []
                     else get_prop params ''arguments'');
             c1 = emit ''toolCall'' [ArgValue req] c
         in (case execute (executor c1) name args of
               Fulfilled content \<Rightarrow> (Fulfilled (createToolCallResponse rid content), c1)
             | Rejected error \<Rightarrow>
                 (Fulfilled (createToolCallErrorResponse rid (message_of_thrown error)), c1)
             | NeverSettles \<Rightarrow> (NeverSettles, c1))))"


text \<open>
  The object the constructor builds, given the completed configuration and the executor
  it creates: not connected, nothing pending. No \<open>EventSource\<close>, promise or timer exists yet.
\<close>

definition new_BTCPClient :: "BTCPClientConfig \<Rightarrow> ToolExecutor \<Rightarrow> BTCPClient" where
  "new_BTCPClient cfg ex =
     \<lparr>client_config = cfg, eventSource = None, client_sessionId = config_sessionId cfg,
      executor = ex, connected = False, reconnectAttempts = 0, pendingRequests = [],
      client_messageCounter = 0, readyState = (\<lambda>es. 0), promises = [], requestTimers = [],
      nextTimer = 0, scheduledReconnects = [], posted = [], emitted = []\<rparr>"


section \<open>Relay server (server.ts)\<close>

record SSEClient =
  client_id :: string
  client_type :: string
  response :: nat
  sessionId :: string

record PendingResponse =
  agentId :: string
  originalId :: jsval
  timestamp :: int

text \<open>
  \<open>createdAt\<close> is a \<open>Date\<close> that is only ever printed with \<open>toISOString\<close>; the model keeps
  that text.
\<close>

record Session =
  session_id :: string
  browserClient :: "SSEClient option"
  agentClients :: "(string \<times> SSEClient) list"
  tools :: jsval
  pendingResponses :: "(string \<times> PendingResponse) list"
  createdAt :: string

text \<open>The part of an \<open>http.ServerResponse\<close> the relay uses: the chunks written and the end flag.\<close>

record ServerResponse =
  writableEnded :: bool
  written :: "string list"

text \<open>
  The callback given to \<open>setTimeout\<close> by \<open>handleToolsList\<close> and \<open>handleToolsCall\<close> closes
  over the session object and the internal id.
\<close>

datatype timeout_callback = ToolsListTimeout nat string | ToolsCallTimeout nat string

text \<open>
  The server object. The three maps are JavaScript \<open>Map\<close>s, kept in insertion order.
  Session objects and response objects are shared by reference (a session is reachable
  from the \<open>sessions\<close> map and from timer callbacks, a response from every copy of its
  client record), so the state holds a store for each and the maps hold references.
  \<open>timeouts\<close> are the timers started and not yet fired, with their delays.
\<close>

record BTCPServer =
  requestTimeout :: nat
  keepAliveInterval :: nat
  sessions :: "(string \<times> nat) list"
  clients :: "(string \<times> SSEClient) list"
  keepAliveIntervals :: "(string \<times> nat) list"
  messageCounter :: nat
  sessionObjects :: "nat \<Rightarrow> Session"
  responseObjects :: "nat \<Rightarrow> ServerResponse"
  nextObject :: nat
  timeouts :: "(nat \<times> timeout_callback) list"

definition update_session :: "nat \<Rightarrow> (Session \<Rightarrow> Session) \<Rightarrow> BTCPServer \<Rightarrow> BTCPServer" where
  "update_session a f st = st\<lparr>sessionObjects := (sessionObjects st)(a := f (sessionObjects st a))\<rparr>"

text \<open>\<open>res.write(chunk)\<close> and \<open>res.end()\<close>.\<close>

definition response_write :: "nat \<Rightarrow> string \<Rightarrow> BTCPServer \<Rightarrow> BTCPServer" where
  "response_write r chunk st =
     st\<lparr>responseObjects :=
          (responseObjects st)(r := (responseObjects st r)
              \<lparr>written := written (responseObjects st r) @ [chunk]\<rparr>)\<rparr>"

definition response_end :: "nat \<Rightarrow> BTCPServer \<Rightarrow> BTCPServer" where
  "response_end r st =
     st\<lparr>responseObjects := (responseObjects st)(r := (responseObjects st r)\<lparr>writableEnded := True\<rparr>)\<rparr>"

text \<open>The SSE frame \<open>`data: ${data}\n\n`\<close>.\<close>

definition sse_data_frame :: "jsval \<Rightarrow> string" where
  "sse_data_frame data = ''data: '' @ js_String data @ [CHR 0x0A, CHR 0x0A]"

definition sendToClient :: "SSEClient \<Rightarrow> jsval \<Rightarrow> BTCPServer \<Rightarrow> BTCPServer" where
  "sendToClient client message st =
     (if \<not> writableEnded (responseObjects st (response client))
      then (let data = serializeMessage message
            in response_write (response client) (sse_data_frame data) st)
      else st)"

text \<open>\<open>for (const agent of session.agentClients.values()) this.sendToClient(agent, message)\<close>\<close>

definition sendToAgents :: "(string \<times> SSEClient) list \<Rightarrow> jsval \<Rightarrow> BTCPServer \<Rightarrow> BTCPServer" where
  "sendToAgents agents message st = fold (\<lambda>agent. sendToClient agent message) (map snd agents) st"

text \<open>The first value of a \<open>Map\<close> in iteration order, if any.\<close>

definition first_value :: "(string \<times> 'a) list \<Rightarrow> 'a option" where
  "first_value m = (case m of [] \<Rightarrow> None | (k, v) # rest \<Rightarrow> Some v)"

definition handleBrowserConnect :: "string \<Rightarrow> SSEClient \<Rightarrow> BTCPServer \<Rightarrow> BTCPServer" where
  "handleBrowserConnect date client st =
     (case map_of (sessions st) (sessionId client) of
        None \<Rightarrow>
          (let a = nextObject st;
               session = \<lparr>session_id = sessionId client, browserClient = Some client,
                          agentClients = [], tools = JArr [], pendingResponses = [],
                          createdAt = date\<rparr>
           in st\<lparr>sessionObjects := (sessionObjects st)(a := session),
                  nextObject := a + 1,
                  sessions := AList.update (sessionId client) a (sessions st)\<rparr>)
      | Some a \<Rightarrow>
          (let st1 = (case browserClient (sessionObjects st a) of
                        Some old \<Rightarrow>
                          response_end (response old)
                            (sendToClient old
                               (createErrorResponse (JStr ''disconnect'') SESSION_ERROR
                                  ''Another browser client connected to this session'' JUndefined)
                               st)
                      | None \<Rightarrow> st)
           in update_session a (\<lambda>s. s\<lparr>browserClient := Some client\<rparr>) st1))"

text \<open>
  \<open>v.length\<close>: a \<open>TypeError\<close> on \<open>undefined\<close> and \<open>null\<close> (the text of the message is the
  engine's).
\<close>

definition js_length :: "jsval \<Rightarrow> js_thrown + jsval" where
  "js_length v =
     (case v of
        JUndefined \<Rightarrow> Inl (ThrownError ''Cannot read properties of undefined (reading length)'')
      | JNull \<Rightarrow> Inl (ThrownError ''Cannot read properties of null (reading length)'')
      | JArr xs \<Rightarrow> Inr (JNum (int (length xs)))
      | JStr str \<Rightarrow> Inr (JNum (int (length str)))
      | JObj kvs \<Rightarrow> Inr (get_prop v ''length'')
      | _ \<Rightarrow> Inr JUndefined)"

fun session_summaries :: "(nat \<Rightarrow> Session) \<Rightarrow> (string \<times> nat) list \<Rightarrow> js_thrown + jsval list" where
  "session_summaries objs [] = Inr []"
| "session_summaries objs ((sid, a) # rest) =
     (if browserClient (objs a) = None then session_summaries objs rest
      else (case js_length (tools (objs a)) of
              Inl e \<Rightarrow> Inl e
            | Inr toolCount \<Rightarrow>
                (case session_summaries objs rest of
                   Inl e \<Rightarrow> Inl e
                 | Inr summaries \<Rightarrow>
                     Inr (JObj [(''id'', JStr sid), (''toolCount'', toolCount),
                                (''createdAt'', JStr (createdAt (objs a)))] # summaries))))"

text \<open>
  A handler that can throw returns what it threw, if anything, and the state it left.
\<close>

definition handleAgentConnect :: "SSEClient \<Rightarrow> BTCPServer \<Rightarrow> js_thrown option \<times> BTCPServer" where
  "handleAgentConnect client st =
     (case session_summaries (sessionObjects st) (sessions st) of
        Inl e \<Rightarrow> (Some e, st)
      | Inr summaries \<Rightarrow>
          (None, sendToClient client
                   (createResponse (JStr ''sessions'') (JObj [(''sessions'', JArr summaries)])) st))"

text \<open>
  \<open>handleSSE\<close> for a request to \<open>/events\<close> with the given query parameters; \<open>now\<close> is the
  clock read by \<open>generateMessageId\<close>, \<open>date\<close> the date a new session is stamped with. The
  response object \<open>res\<close> of the request is a new object of the store.
\<close>

definition handleSSE ::
  "int \<Rightarrow> string \<Rightarrow> string option \<Rightarrow> string option \<Rightarrow> BTCPServer \<Rightarrow> js_thrown option \<times> BTCPServer" where
  "handleSSE now date sessionId_param clientType_param st =
     (let (clientId, counter) = generateMessageId now (messageCounter st);
          res = nextObject st;
          st0 = st\<lparr>messageCounter := counter, nextObject := res + 1,
                   responseObjects := (responseObjects st)(res := \<lparr>writableEnded = False, written = []\<rparr>)\<rparr>
      in case sessionId_param of
           None \<Rightarrow>
             (None, response_end res
                      (response_write res (js_String (JSON_stringify 0
                          (JObj [(''error'', JStr ''sessionId is required'')]))) st0))
         | Some sid \<Rightarrow>
             if sid = [] then
               (None, response_end res
                        (response_write res (js_String (JSON_stringify 0
                            (JObj [(''error'', JStr ''sessionId is required'')]))) st0))
             else
               (let client = \<lparr>client_id = clientId,
                              client_type = (case clientType_param of None \<Rightarrow> ''agent'' | Some t \<Rightarrow> t),
                              response = res, sessionId = sid\<rparr>;
                    st1 = st0\<lparr>clients := AList.update clientId client (clients st0)\<rparr>;
                    (thrown, st2) =
                      (if client_type client = ''browser''
                       then (None, handleBrowserConnect date client st1)
                       else handleAgentConnect client st1)
                in if thrown \<noteq> None then (thrown, st2)
                   else
                     (let st3 = st2\<lparr>keepAliveIntervals :=
                                      AList.update clientId res (keepAliveIntervals st2)\<rparr>
                      in (None, sendToClient client
                            (JObj [(''jsonrpc'', JStr ''2.0''), (''method'', JStr ''connected''),
                                   (''params'', JObj [(''clientId'', JStr clientId),
                                                      (''sessionId'', JStr sid),
                                                      (''clientType'', JStr (client_type client))])])
                            st3))))"

text \<open>The callback of the keep-alive interval of the response \<open>res\<close>.\<close>

definition keepAliveFires :: "nat \<Rightarrow> BTCPServer \<Rightarrow> BTCPServer" where
  "keepAliveFires res st =
     (if \<not> writableEnded (responseObjects st res)
      then response_write res ('': keepalive'' @ [CHR 0x0A, CHR 0x0A]) st
      else st)"

text \<open>\<open>if (clientId)\<close>: the parameter is present and not the empty string.\<close>

definition given :: "string option \<Rightarrow> bool" where
  "given clientId = (case clientId of None \<Rightarrow> False | Some c \<Rightarrow> c \<noteq> [])"

definition findSenderClient :: "string \<Rightarrow> string option \<Rightarrow> BTCPServer \<Rightarrow> SSEClient option" where
  "findSenderClient sid clientId st =
     (if given clientId then map_of (clients st) (the clientId)
      else
        (case (case map_of (sessions st) sid of
                 Some a \<Rightarrow> first_value (agentClients (sessionObjects st a))
               | None \<Rightarrow> None) of
           Some agent \<Rightarrow> Some agent
         | None \<Rightarrow> find (\<lambda>client. sessionId client = sid) (map snd (clients st))))"

definition handleToolsRegister :: "nat option \<Rightarrow> jsval \<Rightarrow> BTCPServer \<Rightarrow> js_thrown option \<times> BTCPServer" where
  "handleToolsRegister session req st =
     (case session of
        None \<Rightarrow> (None, st)
      | Some a \<Rightarrow>
          if browserClient (sessionObjects st a) = None then (None, st)
          else
            (let params = get_prop req ''params'' in
             if params = JUndefined \<or> params = JNull
             then (Some (ThrownError ''Cannot destructure property tools of request.params''), st)
             else
               (let new_tools = get_prop params ''tools'';
                    st1 = update_session a (\<lambda>s. s\<lparr>tools := new_tools\<rparr>) st
                in case js_length new_tools of
                     Inl e \<Rightarrow> (Some e, st1)
                   | Inr registered \<Rightarrow>
                       (let st2 = sendToAgents (agentClients (sessionObjects st1 a))
                                    (JObj [(''jsonrpc'', JStr ''2.0''),
                                           (''method'', JStr ''tools/updated''),
                                           (''params'', JObj [(''tools'', new_tools)])]) st1
                        in (None,
                            (case browserClient (sessionObjects st2 a) of
                               Some browser \<Rightarrow>
                                 sendToClient browser
                                   (createResponse (get_prop req ''id'')
                                      (JObj [(''success'', JBool True), (''registered'', registered)]))
                                   st2
                             | None \<Rightarrow> st2))))))"

text \<open>
  Forwarding a request to the provider under an internal id, as \<open>handleToolsList\<close> and
  \<open>handleToolsCall\<close> both do: allocate the id, store the pending entry, push the
  rewritten request, start the timer.
\<close>

definition forward_to_browser ::
  "int \<Rightarrow> (nat \<Rightarrow> string \<Rightarrow> timeout_callback) \<Rightarrow> nat \<Rightarrow> SSEClient \<Rightarrow> jsval \<Rightarrow> SSEClient option
     \<Rightarrow> BTCPServer \<Rightarrow> BTCPServer" where
  "forward_to_browser now callback a browser req senderClient st =
     (let (internalId, counter) = generateMessageId now (messageCounter st);
          st0 = st\<lparr>messageCounter := counter\<rparr>;
          sender_id = (case senderClient of Some sender \<Rightarrow> client_id sender | None \<Rightarrow> []);
          st1 = update_session a
                  (\<lambda>s. s\<lparr>pendingResponses :=
                          AList.update internalId
                            \<lparr>agentId = sender_id, originalId = get_prop req ''id'', timestamp = now\<rparr>
                            (pendingResponses s)\<rparr>) st0;
          forwardedRequest = spread_with req ''id'' (JStr internalId);
          st2 = sendToClient browser forwardedRequest st1
      in st2\<lparr>timeouts := timeouts st2 @ [(requestTimeout st2, callback a internalId)]\<rparr>)"

definition handleToolsList ::
  "int \<Rightarrow> nat option \<Rightarrow> jsval \<Rightarrow> SSEClient option \<Rightarrow> BTCPServer \<Rightarrow> BTCPServer" where
  "handleToolsList now session req senderClient st =
     (case session of
        None \<Rightarrow>
          (case senderClient of
             Some sender \<Rightarrow>
               sendToClient sender (createResponse (get_prop req ''id'') (JObj [(''tools'', JArr [])])) st
           | None \<Rightarrow> st)
      | Some a \<Rightarrow>
          (case browserClient (sessionObjects st a) of
             Some browser \<Rightarrow> forward_to_browser now ToolsListTimeout a browser req senderClient st
           | None \<Rightarrow>
               (let resp = createResponse (get_prop req ''id'')
                             (JObj [(''tools'', tools (sessionObjects st a))])
                in case senderClient of
                     Some sender \<Rightarrow> sendToClient sender resp st
                   | None \<Rightarrow>
                       (case first_value (agentClients (sessionObjects st a)) of
                          Some agent \<Rightarrow> sendToClient agent resp st
                        | None \<Rightarrow> st))))"

definition handleToolsCall ::
  "int \<Rightarrow> nat option \<Rightarrow> jsval \<Rightarrow> SSEClient option \<Rightarrow> BTCPServer \<Rightarrow> BTCPServer" where
  "handleToolsCall now session req senderClient st =
     (case (case session of
              Some a \<Rightarrow> (case browserClient (sessionObjects st a) of
                           Some browser \<Rightarrow> Some (a, browser) | None \<Rightarrow> None)
            | None \<Rightarrow> None) of
        None \<Rightarrow>
          (let errorResponse = createErrorResponse (get_prop req ''id'') SESSION_ERROR
                                 ''No browser client connected to this session'' JUndefined
           in case senderClient of
                Some sender \<Rightarrow> sendToClient sender errorResponse st
              | None \<Rightarrow>
                  (case (case session of
                           Some a \<Rightarrow> first_value (agentClients (sessionObjects st a))
                         | None \<Rightarrow> None) of
                     Some agent \<Rightarrow> sendToClient agent errorResponse st
                   | None \<Rightarrow> st))
      | Some (a, browser) \<Rightarrow> forward_to_browser now ToolsCallTimeout a browser req senderClient st)"

text \<open>The timer callbacks, run when the timer fires.\<close>

definition toolsListTimeoutFires :: "nat \<Rightarrow> string \<Rightarrow> BTCPServer \<Rightarrow> BTCPServer" where
  "toolsListTimeoutFires a internalId st =
     (case map_of (pendingResponses (sessionObjects st a)) internalId of
        Some pending \<Rightarrow>
          (let st1 = update_session a
                       (\<lambda>s. s\<lparr>pendingResponses := AList.delete internalId (pendingResponses s)\<rparr>) st
           in case map_of (agentClients (sessionObjects st1 a)) (agentId pending) of
                Some agent \<Rightarrow>
                  sendToClient agent
                    (createResponse (originalId pending)
                       (JObj [(''tools'', tools (sessionObjects st1 a))])) st1
              | None \<Rightarrow> st1)
      | None \<Rightarrow> st)"

definition toolsCallTimeoutFires :: "nat \<Rightarrow> string \<Rightarrow> BTCPServer \<Rightarrow> BTCPServer" where
  "toolsCallTimeoutFires a internalId st =
     (case map_of (pendingResponses (sessionObjects st a)) internalId of
        Some pending \<Rightarrow>
          (let st1 = update_session a
                       (\<lambda>s. s\<lparr>pendingResponses := AList.delete internalId (pendingResponses s)\<rparr>) st
           in case map_of (agentClients (sessionObjects st1 a)) (agentId pending) of
                Some agent \<Rightarrow>
                  sendToClient agent
                    (createErrorResponse (originalId pending) TIMEOUT_ERROR
                       ''Tool execution timeout'' JUndefined) st1
              | None \<Rightarrow> st1)
      | None \<Rightarrow> st)"

definition timeoutFires :: "timeout_callback \<Rightarrow> BTCPServer \<Rightarrow> BTCPServer" where
  "timeoutFires callback st =
     (let st1 = st\<lparr>timeouts := remove1 (requestTimeout st, callback) (timeouts st)\<rparr>
      in case callback of
           ToolsListTimeout a internalId \<Rightarrow> toolsListTimeoutFires a internalId st1
         | ToolsCallTimeout a internalId \<Rightarrow> toolsCallTimeoutFires a internalId st1)"

definition handleToolResponse :: "nat option \<Rightarrow> jsval \<Rightarrow> BTCPServer \<Rightarrow> BTCPServer" where
  "handleToolResponse session resp st =
     (case session of
        None \<Rightarrow> st
      | Some a \<Rightarrow>
          (case map_of (pendingResponses (sessionObjects st a)) (js_String (get_prop resp ''id'')) of
             None \<Rightarrow> st
           | Some pending \<Rightarrow>
               (let st1 = update_session a
                            (\<lambda>s. s\<lparr>pendingResponses :=
                                    AList.delete (js_String (get_prop resp ''id''))
                                      (pendingResponses s)\<rparr>) st
                in case map_of (agentClients (sessionObjects st1 a)) (agentId pending) of
                     Some agent \<Rightarrow>
                       (let forwardedResponse = spread_with resp ''id'' (originalId pending)
                        in sendToClient agent forwardedResponse st1)
                   | None \<Rightarrow> st1)))"

text \<open>\<open>this.sessions.get(k)\<close> for a key that need not be a string.\<close>

definition sessions_get :: "BTCPServer \<Rightarrow> jsval \<Rightarrow> nat option" where
  "sessions_get st k = (case k of JStr sid \<Rightarrow> map_of (sessions st) sid | _ \<Rightarrow> None)"

definition handleSessionJoin ::
  "string \<Rightarrow> jsval \<Rightarrow> string option \<Rightarrow> BTCPServer \<Rightarrow> js_thrown option \<times> BTCPServer" where
  "handleSessionJoin currentSessionId req clientId st =
     (let params = get_prop req ''params'' in
      if params = JUndefined \<or> params = JNull
      then (Some (ThrownError ''Cannot destructure property sessionId of request.params''), st)
      else
        (let targetSessionId = get_prop params ''sessionId'';
             targetSession = sessions_get st targetSessionId;
             client = (if given clientId then map_of (clients st) (the clientId)
                       else find (\<lambda>c. sessionId c = currentSessionId \<and> client_type c = ''agent'')
                              (map snd (clients st)))
         in case client of
              None \<Rightarrow> (None, st)
            | Some cl \<Rightarrow>
                (case targetSession of
                   None \<Rightarrow>
                     (None, sendToClient cl
                              (createErrorResponse (get_prop req ''id'') SESSION_ERROR
                                 (''Session not found: '' @ js_String targetSessionId) JUndefined) st)
                 | Some a \<Rightarrow>
                     (let st1 = update_session a
                                  (\<lambda>s. s\<lparr>agentClients :=
                                          AList.update (client_id cl) cl (agentClients s)\<rparr>) st
                      in (None, sendToClient cl
                                  (createResponse (get_prop req ''id'')
                                     (JObj [(''success'', JBool True),
                                            (''sessionId'', targetSessionId),
                                            (''tools'', tools (sessionObjects st1 a))])) st1)))))"

definition handlePing ::
  "int \<Rightarrow> nat option \<Rightarrow> jsval \<Rightarrow> SSEClient option \<Rightarrow> BTCPServer \<Rightarrow> BTCPServer" where
  "handlePing now session req senderClient st =
     (let resp = createPongResponse now (get_prop req ''id'') in
      case senderClient of
        Some sender \<Rightarrow> sendToClient sender resp st
      | None \<Rightarrow>
          (case (case session of Some a \<Rightarrow> browserClient (sessionObjects st a) | None \<Rightarrow> None) of
             Some browser \<Rightarrow> sendToClient browser resp st
           | None \<Rightarrow> st))"

definition routeMessage ::
  "int \<Rightarrow> string \<Rightarrow> jsval \<Rightarrow> string option \<Rightarrow> BTCPServer \<Rightarrow> js_thrown option \<times> BTCPServer" where
  "routeMessage now sid message clientId st =
     (let session = map_of (sessions st) sid;
          senderClient = findSenderClient sid clientId st
      in if isResponse message then (None, handleToolResponse session message st)
         else if \<not> isRequest message then (None, st)
         else
           (let method = get_prop message ''method'' in
            if method = JStr ''tools/register'' then handleToolsRegister session message st
            else if method = JStr ''tools/list''
              then (None, handleToolsList now session message senderClient st)
            else if method = JStr ''tools/call''
              then (None, handleToolsCall now session message senderClient st)
            else if method = JStr ''session/join'' then handleSessionJoin sid message clientId st
            else if method = JStr ''ping''
              then (None, handlePing now session message senderClient st)
            else (None, st)))"

definition handleDisconnect :: "string \<Rightarrow> BTCPServer \<Rightarrow> BTCPServer" where
  "handleDisconnect clientId st =
     (case map_of (clients st) clientId of
        None \<Rightarrow> st
      | Some client \<Rightarrow>
          (let st1 = (case map_of (keepAliveIntervals st) clientId of
                        Some interval \<Rightarrow>
                          st\<lparr>keepAliveIntervals := AList.delete clientId (keepAliveIntervals st)\<rparr>
                      | None \<Rightarrow> st);
               st2 =
                 (case map_of (sessions st1) (sessionId client) of
                    Some a \<Rightarrow>
                      (let st3 =
                             (if map_option client_id (browserClient (sessionObjects st1 a))
                                   = Some clientId
                              then (let st4 = update_session a (\<lambda>s. s\<lparr>browserClient := None\<rparr>) st1
                                    in sendToAgents (agentClients (sessionObjects st4 a))
                                         (JObj [(''jsonrpc'', JStr ''2.0''),
                                                (''method'', JStr ''browser/disconnected''),
                                                (''params'',
                                                   JObj [(''sessionId'',
                                                          JStr (session_id (sessionObjects st4 a)))])])
                                         st4)
                              else update_session a
                                     (\<lambda>s. s\<lparr>agentClients := AList.delete clientId (agentClients s)\<rparr>)
                                     st1)
                       in if browserClient (sessionObjects st3 a) = None
                             \<and> length (agentClients (sessionObjects st3 a)) = 0
                          then st3\<lparr>sessions := AList.delete (sessionId client) (sessions st3)\<rparr>
                          else st3)
                  | None \<Rightarrow> st1)
           in st2\<lparr>clients := AList.delete clientId (clients st2)\<rparr>))"

definition stop :: "BTCPServer \<Rightarrow> BTCPServer" where
  "stop st =
     (let st1 = st\<lparr>keepAliveIntervals := []\<rparr>;
          st2 = fold (\<lambda>client. response_end (response client)) (map snd (clients st1)) st1
      in st2\<lparr>clients := [], sessions := []\<rparr>)"

text \<open>A new server: no session, no client, an empty store.\<close>

definition new_BTCPServer :: "nat \<Rightarrow> nat \<Rightarrow> BTCPServer" where
  "new_BTCPServer keepAlive reqTimeout =
     \<lparr>requestTimeout = reqTimeout, keepAliveInterval = keepAlive,
      sessions = [], clients = [], keepAliveIntervals = [], messageCounter = 0,
      sessionObjects = (\<lambda>a. \<lparr>session_id = [], browserClient = None, agentClients = [],
                              tools = JArr [], pendingResponses = [], createdAt = []\<rparr>),
      responseObjects = (\<lambda>r. \<lparr>writableEnded = False, written = []\<rparr>),
      nextObject = 0, timeouts = []\<rparr>"


section \<open>Events and reachable states\<close>

text \<open>
  The relay is driven by events, handled one at a time: a peer attaches, a message is
  ingested, a push channel closes, a timer or a keep-alive interval fires, the server
  is stopped.
\<close>

inductive reachable :: "BTCPServer \<Rightarrow> bool" where
  start: "reachable (new_BTCPServer keepAlive reqTimeout)"
| attach: "reachable st \<Longrightarrow> reachable (snd (handleSSE now date sessionId_param clientType_param st))"
| ingest: "reachable st \<Longrightarrow> reachable (snd (routeMessage now sid message clientId st))"
| close: "reachable st \<Longrightarrow> reachable (handleDisconnect clientId st)"
| timer: "reachable st \<Longrightarrow> reachable (timeoutFires callback st)"
| keepAlive: "reachable st \<Longrightarrow> reachable (keepAliveFires res st)"
| stopped: "reachable st \<Longrightarrow> reachable (stop st)"

text \<open>
  The invariant behind provider takeover: every session of the \<open>sessions\<close> map is an
  object of its own, and the provider of each has a stream of its own that has not been
  ended.
\<close>

definition providers_open :: "BTCPServer \<Rightarrow> bool" where
  "providers_open st =
     ((\<forall>sid a. map_of (sessions st) sid = Some a \<longrightarrow> a < nextObject st)
      \<and> (\<forall>sid sid' a. map_of (sessions st) sid = Some a \<and> map_of (sessions st) sid' = Some a
             \<longrightarrow> sid = sid')
      \<and> (\<forall>sid a c. map_of (sessions st) sid = Some a \<and> browserClient (sessionObjects st a) = Some c
             \<longrightarrow> response c < nextObject st \<and> \<not> writableEnded (responseObjects st (response c)))
      \<and> (\<forall>sid sid' a a' c c'.
             map_of (sessions st) sid = Some a \<and> browserClient (sessionObjects st a) = Some c
             \<and> map_of (sessions st) sid' = Some a' \<and> browserClient (sessionObjects st a') = Some c'
             \<and> response c = response c' \<longrightarrow> sid = sid'))"

text \<open>Two states with the same sessions, the same providers and the same open streams.\<close>

definition same_providers :: "BTCPServer \<Rightarrow> BTCPServer \<Rightarrow> bool" where
  "same_providers st st' =
     (sessions st' = sessions st \<and> nextObject st' = nextObject st
      \<and> (\<forall>a. browserClient (sessionObjects st' a) = browserClient (sessionObjects st a))
      \<and> (\<forall>r. writableEnded (responseObjects st' r) = writableEnded (responseObjects st r)))"
text \<open>A state that differs from an earlier one by sessions and providers that have left.\<close>

definition fewer_providers :: "BTCPServer \<Rightarrow> BTCPServer \<Rightarrow> bool" where
  "fewer_providers st st' =
     (nextObject st' = nextObject st
      \<and> (\<forall>sid a. map_of (sessions st') sid = Some a \<longrightarrow> map_of (sessions st) sid = Some a)
      \<and> (\<forall>a c. browserClient (sessionObjects st' a) = Some c
             \<longrightarrow> browserClient (sessionObjects st a) = Some c)
      \<and> (\<forall>r. writableEnded (responseObjects st' r) = writableEnded (responseObjects st r)))"


section \<open>Sample runs\<close>

text \<open>
  Concrete runs of the relay and of the client, used to evaluate the program: a provider
  attaches to session \<open>E\<close>; a caller attaches under its own session id \<open>A\<close> and joins \<open>E\<close>;
  the caller sends a \<open>tools/call\<close> or a \<open>tools/list\<close> to \<open>E\<close>. The client records are the
  ones \<open>handleSSE\<close> builds in these runs.
\<close>

definition provider_client :: SSEClient where
  "provider_client =
     \<lparr>client_id = ''btcp-1000-1'', client_type = ''browser'', response = 0, sessionId = ''E''\<rparr>"

definition caller_client :: SSEClient where
  "caller_client =
     \<lparr>client_id = ''btcp-1001-2'', client_type = ''agent'', response = 2, sessionId = ''A''\<rparr>"

definition second_provider_client :: SSEClient where
  "second_provider_client =
     \<lparr>client_id = ''btcp-1001-2'', client_type = ''browser'', response = 2, sessionId = ''E''\<rparr>"

definition run_provider :: BTCPServer where
  "run_provider =
     snd (handleSSE 1000 ''2026-01-01T00:00:00.000Z'' (Some ''E'') (Some ''browser'')
            (new_BTCPServer 30000 30000))"

definition run_caller :: BTCPServer where
  "run_caller =
     snd (handleSSE 1001 ''2026-01-01T00:00:01.000Z'' (Some ''A'') (Some ''agent'') run_provider)"

definition join_request :: jsval where
  "join_request =
     JObj [(''jsonrpc'', JStr ''2.0''), (''id'', JNum 1), (''method'', JStr ''session/join''),
           (''params'', JObj [(''sessionId'', JStr ''E'')])]"

definition run_joined :: BTCPServer where
  "run_joined = snd (routeMessage 1002 ''A'' join_request (Some ''btcp-1001-2'') run_caller)"

definition call_request :: jsval where
  "call_request =
     JObj [(''jsonrpc'', JStr ''2.0''), (''id'', JNum 7), (''method'', JStr ''tools/call''),
           (''params'', JObj [(''name'', JStr ''echo''),
                              (''arguments'', JObj [(''message'', JStr ''hi'')])])]"

definition run_called :: BTCPServer where
  "run_called = snd (routeMessage 1003 ''E'' call_request (Some ''btcp-1001-2'') run_joined)"

definition tool_response :: jsval where
  "tool_response =
     JObj [(''jsonrpc'', JStr ''2.0''), (''id'', JStr ''btcp-1003-3''),
           (''result'', JObj [(''content'', JArr [JObj [(''type'', JStr ''text''),
                                                         (''text'', JStr ''hi'')]]),
                              (''isError'', JBool False)])]"

definition list_request :: jsval where
  "list_request =
     JObj [(''jsonrpc'', JStr ''2.0''), (''id'', JNum 8), (''method'', JStr ''tools/list'')]"

definition run_listed :: BTCPServer where
  "run_listed = snd (routeMessage 1003 ''E'' list_request (Some ''btcp-1001-2'') run_joined)"

definition run_unjoined_call :: BTCPServer where
  "run_unjoined_call =
     snd (routeMessage 1002 ''E'' call_request (Some ''btcp-1001-2'') run_caller)"

definition register_request :: jsval where
  "register_request =
     JObj [(''jsonrpc'', JStr ''2.0''), (''id'', JNum 9), (''method'', JStr ''tools/register''),
           (''params'', JObj [(''tools'', JArr [JObj [(''name'', JStr ''other''),
                                 (''description'', JStr ''a tool of another peer''),
                                 (''inputSchema'', JObj [])]])])]"

text \<open>The built-in \<open>echo\<close> handler, and the failing handler of the integration tests.\<close>

definition echo_handler :: ToolHandler where
  "echo_handler args =
     (let message = (if get_prop args ''message'' = JUndefined \<or> get_prop args ''message'' = JNull
                     then JStr ''Hello from BTCP!'' else get_prop args ''message'')
      in Fulfilled (createTextContent (JStr (js_String message))))"

definition failing_handler :: ToolHandler where
  "failing_handler args = Rejected (ThrownError ''Tool failed intentionally'')"

definition sample_executor :: ToolExecutor where
  "sample_executor =
     \<lparr>handlers = [(''echo'', echo_handler), (''failing_tool'', failing_handler)],
      toolDefinitions = []\<rparr>"

definition sample_config :: BTCPClientConfig where
  "sample_config =
     \<lparr>serverUrl = ''http://localhost:8765'', config_sessionId = ''T'', autoReconnect = True,
      reconnectDelay = 1000, maxReconnectAttempts = 5, connectionTimeout = 30000\<rparr>"

text \<open>A client whose push channel is open: its \<open>EventSource\<close> is object 0, in state \<open>OPEN\<close>.\<close>

definition connected_client :: BTCPClient where
  "connected_client =
     (new_BTCPClient sample_config sample_executor)
       \<lparr>eventSource := Some 0, connected := True, readyState := (\<lambda>es. 0)(0 := 1)\<rparr>"


definition failing_tool_call :: jsval where
  "failing_tool_call =
     JObj [(''jsonrpc'', JStr ''2.0''), (''id'', JStr ''btcp-1003-3''), (''method'', JStr ''tools/call''),
           (''params'', JObj [(''name'', JStr ''failing_tool''), (''arguments'', JObj [])])]"

definition unknown_tool_call :: jsval where
  "unknown_tool_call =
     JObj [(''jsonrpc'', JStr ''2.0''), (''id'', JStr ''btcp-1003-3''), (''method'', JStr ''tools/call''),
           (''params'', JObj [(''name'', JStr ''x'')])]"


section \<open>The specification's wording, where it differs from the program\<close>



section \<open>Basic facts\<close>

lemma get_prop_spread_with: "get_prop (spread_with v k x) k = x"
  by (cases v) (simp_all add: spread_with_def get_prop_def update_conv')

lemma isValidJsonRpcMessage_iff:
  "isValidJsonRpcMessage obj \<longleftrightarrow> get_prop obj ''jsonrpc'' = JStr ''2.0''"
  by (cases obj) (simp_all add: isValidJsonRpcMessage_def typeof_object_def get_prop_def)




lemma isBTCPContent_primitive [simp]:
  "\<not> isBTCPContent (JStr s)" "\<not> isBTCPContent (JNum n)" "\<not> isBTCPContent (JBool b)"
  "\<not> isBTCPContent JNull" "\<not> isBTCPContent JUndefined"
  by (simp_all add: isBTCPContent_def typeof_object_def)




section \<open>Message parsing\<close>

text \<open>
  Claim C8, as amended. \<open>parseMessage\<close> fails in exactly two cases, and both failures are
  a \<open>BTCPParseError\<close>, whose code is -32700: when \<open>JSON.parse\<close> rejects the text, and
  when the decoded value does not have \<open>jsonrpc\<close> equal to \<open>"2.0"\<close>. Otherwise the decoded
  value is returned as it is. No path produces the invalid-request code -32600.
\<close>

theorem parseMessage_rejects_with_parse_error:
  "parseMessage JSON_parse data =
     (case JSON_parse data of
        Inl syntaxError \<Rightarrow> Inl (BTCPParseError ''Failed to parse JSON-RPC message'')
      | Inr parsed \<Rightarrow>
          if get_prop parsed ''jsonrpc'' = JStr ''2.0'' then Inr parsed
          else Inl (BTCPParseError ''Invalid JSON-RPC message structure''))
   \<and> err_code (BTCPParseError message) = - 32700
   \<and> err_class (BTCPParseError message) = BTCPParseErrorClass"
  by (simp add: parseMessage_def isValidJsonRpcMessage_iff BTCPParseError_def PARSE_ERROR_def
           split: sum.splits)

theorem parseMessage_rejects_with_parse_error_witness:
  "parseMessage (decoder_of_table [(''{\"jsonrpc\":\"2.0\",\"id\":1,\"method\":\"ping\"}'',
        JObj [(''jsonrpc'', JStr ''2.0''), (''id'', JNum 1), (''method'', JStr ''ping'')])])
      ''not json''
     = Inl \<lparr>err_class = BTCPParseErrorClass, err_message = ''Failed to parse JSON-RPC message'',
            err_code = - 32700\<rparr>
   \<and> parseMessage (decoder_of_table [(''{\"jsonrpc\":\"2.0\",\"id\":1,\"method\":\"ping\"}'',
        JObj [(''jsonrpc'', JStr ''2.0''), (''id'', JNum 1), (''method'', JStr ''ping'')])])
      ''{\"jsonrpc\":\"2.0\",\"id\":1,\"method\":\"ping\"}''
     = Inr (JObj [(''jsonrpc'', JStr ''2.0''), (''id'', JNum 1), (''method'', JStr ''ping'')])"
  using parseMessage_rejects_with_parse_error
    [of "decoder_of_table [(''{\"jsonrpc\":\"2.0\",\"id\":1,\"method\":\"ping\"}'',
        JObj [(''jsonrpc'', JStr ''2.0''), (''id'', JNum 1), (''method'', JStr ''ping'')])]"
        "''not json''" "''Failed to parse JSON-RPC message''"]
    parseMessage_rejects_with_parse_error
    [of "decoder_of_table [(''{\"jsonrpc\":\"2.0\",\"id\":1,\"method\":\"ping\"}'',
        JObj [(''jsonrpc'', JStr ''2.0''), (''id'', JNum 1), (''method'', JStr ''ping'')])]"
        "''{\"jsonrpc\":\"2.0\",\"id\":1,\"method\":\"ping\"}''" "''x''"]
  by (simp add: decoder_of_table_def get_prop_def BTCPParseError_def PARSE_ERROR_def)

text \<open>
  Claim C8 as stated fails: the document \<open>{"foo":"bar"}\<close> decodes to a value without
  \<open>jsonrpc\<close>, and \<open>parseMessage\<close> rejects it with code -32700, not -32600.
\<close>

theorem parseMessage_invalid_request_counterexample:
  "get_prop (JObj [(''foo'', JStr ''bar'')]) ''jsonrpc'' \<noteq> JStr ''2.0''
   \<and> parseMessage (decoder_of_table [(''{\"foo\":\"bar\"}'', JObj [(''foo'', JStr ''bar'')])])
        ''{\"foo\":\"bar\"}''
       = Inl \<lparr>err_class = BTCPParseErrorClass,
              err_message = ''Invalid JSON-RPC message structure'', err_code = - 32700\<rparr>
   \<and> (- 32700 :: int) \<noteq> INVALID_REQUEST"
  by (simp add: parseMessage_def decoder_of_table_def isValidJsonRpcMessage_def typeof_object_def
        get_prop_def BTCPParseError_def PARSE_ERROR_def INVALID_REQUEST_def)


section \<open>Result normalisation\<close>







section \<open>Facts about the relay's primitives\<close>

lemma serialize_ping:
  "sse_data_frame (serializeMessage (JObj [(''jsonrpc'', JStr ''2.0''), (''method'', JStr ''ping'')]))
     = ''data: {\"jsonrpc\":\"2.0\",\"method\":\"ping\"}'' @ [CHR 0x0A, CHR 0x0A]"
  by (simp add: sse_data_frame_def serializeMessage_def JSON_stringify_def QuoteJSONString_def
        QuoteJSONChar_def)

lemma sendToClient_preserves [simp]:
  "sessionObjects (sendToClient c m st) = sessionObjects st"
  "sessions (sendToClient c m st) = sessions st"
  "clients (sendToClient c m st) = clients st"
  "timeouts (sendToClient c m st) = timeouts st"
  "messageCounter (sendToClient c m st) = messageCounter st"
  "requestTimeout (sendToClient c m st) = requestTimeout st"
  "keepAliveIntervals (sendToClient c m st) = keepAliveIntervals st"
  by (simp_all add: sendToClient_def response_write_def Let_def)

lemma sendToAgents_preserves [simp]:
  "sessionObjects (sendToAgents agents m st) = sessionObjects st"
  "sessions (sendToAgents agents m st) = sessions st"
  "clients (sendToAgents agents m st) = clients st"
  "timeouts (sendToAgents agents m st) = timeouts st"
  "messageCounter (sendToAgents agents m st) = messageCounter st"
  "requestTimeout (sendToAgents agents m st) = requestTimeout st"
  "keepAliveIntervals (sendToAgents agents m st) = keepAliveIntervals st"
  unfolding sendToAgents_def
  by (induction agents arbitrary: st; simp)+

lemma update_session_fields [simp]:
  "sessionObjects (update_session a f st) a = f (sessionObjects st a)"
  "b \<noteq> a \<Longrightarrow> sessionObjects (update_session a f st) b = sessionObjects st b"
  "responseObjects (update_session a f st) = responseObjects st"
  "sessions (update_session a f st) = sessions st"
  "clients (update_session a f st) = clients st"
  "timeouts (update_session a f st) = timeouts st"
  "messageCounter (update_session a f st) = messageCounter st"
  "requestTimeout (update_session a f st) = requestTimeout st"
  "keepAliveIntervals (update_session a f st) = keepAliveIntervals st"
  by (simp_all add: update_session_def)

lemma sendToClient_written:
  "written (responseObjects (sendToClient c m st) r) =
     (if r = response c \<and> \<not> writableEnded (responseObjects st (response c))
      then written (responseObjects st r) @ [sse_data_frame (serializeMessage m)]
      else written (responseObjects st r))"
  by (simp add: sendToClient_def response_write_def Let_def)

lemma sendToClient_writableEnded [simp]:
  "writableEnded (responseObjects (sendToClient c m st) r) = writableEnded (responseObjects st r)"
  by (simp add: sendToClient_def response_write_def Let_def)

lemma forward_to_browser_pending:
  "map_of (pendingResponses (sessionObjects
       (forward_to_browser now callback a browser req senderClient st) a))
     (fst (generateMessageId now (messageCounter st)))
   = Some \<lparr>agentId = (case senderClient of Some sender \<Rightarrow> client_id sender | None \<Rightarrow> []),
           originalId = get_prop req ''id'', timestamp = now\<rparr>"
  by (simp add: forward_to_browser_def Let_def split_def update_conv')

lemma forward_to_browser_timeouts:
  "timeouts (forward_to_browser now callback a browser req senderClient st)
   = timeouts st @ [(requestTimeout st, callback a (fst (generateMessageId now (messageCounter st))))]"
  by (simp add: forward_to_browser_def Let_def split_def)

lemma forward_to_browser_written:
  "written (responseObjects (forward_to_browser now callback a browser req senderClient st)
      (response browser))
   = (if writableEnded (responseObjects st (response browser))
      then written (responseObjects st (response browser))
      else written (responseObjects st (response browser))
             @ [sse_data_frame (serializeMessage
                  (spread_with req ''id'' (JStr (fst (generateMessageId now (messageCounter st))))))])"
  by (simp add: forward_to_browser_def Let_def split_def sendToClient_written)

lemma handleToolsCall_forward:
  "browserClient (sessionObjects st a) = Some browser \<Longrightarrow>
   handleToolsCall now (Some a) req senderClient st
     = forward_to_browser now ToolsCallTimeout a browser req senderClient st"
  by (simp add: handleToolsCall_def)

lemma handleToolsList_forward:
  "browserClient (sessionObjects st a) = Some browser \<Longrightarrow>
   handleToolsList now (Some a) req senderClient st
     = forward_to_browser now ToolsListTimeout a browser req senderClient st"
  by (simp add: handleToolsList_def)

lemma handleToolResponse_present:
  assumes "map_of (pendingResponses (sessionObjects st a)) (js_String (get_prop resp ''id''))
             = Some pending"
  shows "handleToolResponse (Some a) resp st =
     (case map_of (agentClients (sessionObjects st a)) (agentId pending) of
        Some agent \<Rightarrow>
          sendToClient agent (spread_with resp ''id'' (originalId pending))
            (update_session a (\<lambda>s. s\<lparr>pendingResponses :=
                AList.delete (js_String (get_prop resp ''id'')) (pendingResponses s)\<rparr>) st)
      | None \<Rightarrow>
          update_session a (\<lambda>s. s\<lparr>pendingResponses :=
                AList.delete (js_String (get_prop resp ''id'')) (pendingResponses s)\<rparr>) st)"
  using assms by (simp add: handleToolResponse_def Let_def split: option.splits)

lemma request_is_no_response: "isRequest req \<Longrightarrow> \<not> isResponse req"
  by (simp add: isRequest_def isResponse_def)

lemma handleToolsRegister_tools:
  assumes "browserClient (sessionObjects st a) \<noteq> None"
      and "get_prop req ''params'' \<noteq> JUndefined" and "get_prop req ''params'' \<noteq> JNull"
  shows "tools (sessionObjects (snd (handleToolsRegister (Some a) req st)) a)
           = get_prop (get_prop req ''params'') ''tools''"
  using assms
  by (auto simp add: handleToolsRegister_def Let_def split: sum.splits option.splits)

lemma timeoutFires_call:
  assumes "map_of (pendingResponses (sessionObjects st a)) iid = Some pending"
  shows "map_of (pendingResponses (sessionObjects (timeoutFires (ToolsCallTimeout a iid) st) a)) iid
           = None"
    and "written (responseObjects (timeoutFires (ToolsCallTimeout a iid) st) r) =
          (case map_of (agentClients (sessionObjects st a)) (agentId pending) of
             Some agent \<Rightarrow>
               if r = response agent \<and> \<not> writableEnded (responseObjects st (response agent))
               then written (responseObjects st r)
                      @ [sse_data_frame (serializeMessage
                           (JObj [(''jsonrpc'', JStr ''2.0''), (''id'', originalId pending),
                                  (''error'', JObj [(''code'', JNum (- 32001)),
                                     (''message'', JStr ''Tool execution timeout'')])]))]
               else written (responseObjects st r)
           | None \<Rightarrow> written (responseObjects st r))"
  using assms
  by (simp_all add: timeoutFires_def toolsCallTimeoutFires_def Let_def update_session_def
        delete_conv' sendToClient_written createErrorResponse_def TIMEOUT_ERROR_def
        split: option.splits)

lemma timeoutFires_list:
  assumes "map_of (pendingResponses (sessionObjects st a)) iid = Some pending"
  shows "map_of (pendingResponses (sessionObjects (timeoutFires (ToolsListTimeout a iid) st) a)) iid
           = None"
    and "written (responseObjects (timeoutFires (ToolsListTimeout a iid) st) r) =
          (case map_of (agentClients (sessionObjects st a)) (agentId pending) of
             Some agent \<Rightarrow>
               if r = response agent \<and> \<not> writableEnded (responseObjects st (response agent))
               then written (responseObjects st r)
                      @ [sse_data_frame (serializeMessage
                           (JObj [(''jsonrpc'', JStr ''2.0''), (''id'', originalId pending),
                                  (''result'', JObj [(''tools'', tools (sessionObjects st a))])]))]
               else written (responseObjects st r)
           | None \<Rightarrow> written (responseObjects st r))"
  using assms
  by (simp_all add: timeoutFires_def toolsListTimeoutFires_def Let_def update_session_def
        delete_conv' sendToClient_written createResponse_def
        split: option.splits)


section \<open>Facts about the sample runs\<close>

lemma run_provider_fields:
  "sessions run_provider = [(''E'', Suc 0)]"
  "clients run_provider = [(''btcp-1000-1'', provider_client)]"
  "sessionObjects run_provider (Suc 0) =
     \<lparr>session_id = ''E'', browserClient = Some provider_client,
      agentClients = [], tools = JArr [], pendingResponses = [],
      createdAt = ''2026-01-01T00:00:00.000Z''\<rparr>"
  "writableEnded (responseObjects run_provider 0) = False"
  "messageCounter run_provider = Suc 0"
  "nextObject run_provider = 2"
  "keepAliveIntervals run_provider = [(''btcp-1000-1'', 0)]"
  "requestTimeout run_provider = 30000"
  "timeouts run_provider = []"
  by (simp_all add: run_provider_def provider_client_def handleSSE_def new_BTCPServer_def
        generateMessageId_def string_of_int_def string_of_nat.simps digit_chars_def
        handleBrowserConnect_def sendToClient_def response_write_def Let_def)

lemma run_caller_fields:
  "sessions run_caller = [(''E'', Suc 0)]"
  "clients run_caller = [(''btcp-1000-1'', provider_client), (''btcp-1001-2'', caller_client)]"
  "sessionObjects run_caller (Suc 0) =
     \<lparr>session_id = ''E'', browserClient = Some provider_client,
      agentClients = [], tools = JArr [], pendingResponses = [],
      createdAt = ''2026-01-01T00:00:00.000Z''\<rparr>"
  "writableEnded (responseObjects run_caller 0) = False"
  "writableEnded (responseObjects run_caller 2) = False"
  "messageCounter run_caller = 2"
  "keepAliveIntervals run_caller = [(''btcp-1000-1'', 0), (''btcp-1001-2'', 2)]"
  "requestTimeout run_caller = 30000"
  "timeouts run_caller = []"
  by (simp_all add: run_caller_def run_provider_fields provider_client_def caller_client_def
        handleSSE_def generateMessageId_def string_of_int_def string_of_nat.simps digit_chars_def
        handleAgentConnect_def createResponse_def js_length_def Let_def
        sendToClient_def response_write_def)

lemma run_joined_fields:
  "sessions run_joined = [(''E'', Suc 0)]"
  "clients run_joined = [(''btcp-1000-1'', provider_client), (''btcp-1001-2'', caller_client)]"
  "sessionObjects run_joined (Suc 0) =
     \<lparr>session_id = ''E'', browserClient = Some provider_client,
      agentClients = [(''btcp-1001-2'', caller_client)], tools = JArr [], pendingResponses = [],
      createdAt = ''2026-01-01T00:00:00.000Z''\<rparr>"
  "writableEnded (responseObjects run_joined 0) = False"
  "writableEnded (responseObjects run_joined 2) = False"
  "messageCounter run_joined = 2"
  "keepAliveIntervals run_joined = [(''btcp-1000-1'', 0), (''btcp-1001-2'', 2)]"
  "requestTimeout run_joined = 30000"
  "timeouts run_joined = []"
  by (simp_all add: run_joined_def run_caller_fields join_request_def routeMessage_def
        isResponse_def isRequest_def in_op_def get_prop_def handleSessionJoin_def given_def
        sessions_get_def caller_client_def Let_def)

lemma sample_clients [simp]:
  "client_id provider_client = ''btcp-1000-1''" "response provider_client = 0"
  "sessionId provider_client = ''E''"
  "client_id caller_client = ''btcp-1001-2''" "response caller_client = 2"
  "sessionId caller_client = ''A''" "client_type caller_client = ''agent''"
  "client_id second_provider_client = ''btcp-1001-2''" "response second_provider_client = 2"
  "sessionId second_provider_client = ''E''"
  by (simp_all add: provider_client_def caller_client_def second_provider_client_def)

lemma internal_id_1003:
  "generateMessageId 1003 2 = (''btcp-1003-3'', 3)"
  by (simp add: generateMessageId_def string_of_int_def string_of_nat.simps digit_chars_def)

lemma run_joined_sender:
  "findSenderClient ''E'' (Some ''btcp-1001-2'') run_joined = Some caller_client"
  "map_of (sessions run_joined) ''E'' = Some (Suc 0)"
  by (simp_all add: findSenderClient_def given_def run_joined_fields)

lemma run_called_eq:
  "run_called = handleToolsCall 1003 (Some 1) call_request (Some caller_client) run_joined"
  by (simp add: run_called_def routeMessage_def run_joined_sender call_request_def isResponse_def
        isRequest_def in_op_def get_prop_def Let_def)

lemma run_listed_eq:
  "run_listed = handleToolsList 1003 (Some 1) list_request (Some caller_client) run_joined"
  by (simp add: run_listed_def routeMessage_def run_joined_sender list_request_def isResponse_def
        isRequest_def in_op_def get_prop_def Let_def)

lemma run_called_fields:
  "agentClients (sessionObjects run_called (Suc 0)) = [(''btcp-1001-2'', caller_client)]"
  "writableEnded (responseObjects run_called 2) = False"
  "agentClients (sessionObjects run_listed (Suc 0)) = [(''btcp-1001-2'', caller_client)]"
  "writableEnded (responseObjects run_listed 2) = False"
  "tools (sessionObjects run_listed (Suc 0)) = JArr []"
  by (simp_all add: run_called_eq run_listed_eq handleToolsCall_def handleToolsList_def
        run_joined_fields forward_to_browser_def split_def Let_def)

lemma run_caller_sender:
  "findSenderClient ''E'' (Some ''btcp-1001-2'') run_caller = Some caller_client"
  "map_of (sessions run_caller) ''E'' = Some (Suc 0)"
  by (simp_all add: findSenderClient_def given_def run_caller_fields)

lemma run_unjoined_call_eq:
  "run_unjoined_call = handleToolsCall 1002 (Some 1) call_request (Some caller_client) run_caller"
  by (simp add: run_unjoined_call_def routeMessage_def run_caller_sender call_request_def
        isResponse_def isRequest_def in_op_def get_prop_def Let_def)

lemma internal_id_1002:
  "generateMessageId 1002 2 = (''btcp-1002-3'', 3)"
  by (simp add: generateMessageId_def string_of_int_def string_of_nat.simps digit_chars_def)

lemma run_unjoined_call_fields:
  "pendingResponses (sessionObjects run_unjoined_call (Suc 0))
     = [(''btcp-1002-3'', \<lparr>agentId = ''btcp-1001-2'', originalId = JNum 7, timestamp = 1002\<rparr>)]"
  "agentClients (sessionObjects run_unjoined_call (Suc 0)) = []"
  "timeouts run_unjoined_call = [(30000, ToolsCallTimeout 1 ''btcp-1002-3'')]"
  "clients run_unjoined_call
     = [(''btcp-1000-1'', provider_client), (''btcp-1001-2'', caller_client)]"
  "writableEnded (responseObjects run_unjoined_call 2) = False"
  by (simp_all add: run_unjoined_call_eq handleToolsCall_def run_caller_fields
        forward_to_browser_def internal_id_1002 call_request_def get_prop_def Let_def)


section \<open>Pushing a message to a peer\<close>

text \<open>
  Claim C10. \<open>sendToClient\<close> has no failing outcome. When the response stream of the peer
  has ended, the state is unchanged: nothing is written. When it is open, exactly one
  chunk is appended to that stream, the frame \<open>data: <serialised message>\<close> followed by
  two newlines; no stream is ended, no other stream is written to, and sessions,
  clients and timers are untouched.
\<close>

theorem sendToClient_drops_or_writes_one_frame:
  "(writableEnded (responseObjects st (response client))
      \<longrightarrow> sendToClient client message st = st)
   \<and> (\<not> writableEnded (responseObjects st (response client))
      \<longrightarrow> written (responseObjects (sendToClient client message st) (response client))
            = written (responseObjects st (response client))
                @ [''data: '' @ js_String (serializeMessage message) @ [CHR 0x0A, CHR 0x0A]])
   \<and> (\<forall>r. writableEnded (responseObjects (sendToClient client message st) r)
            = writableEnded (responseObjects st r))
   \<and> (\<forall>r. r \<noteq> response client \<longrightarrow>
            responseObjects (sendToClient client message st) r = responseObjects st r)
   \<and> sessions (sendToClient client message st) = sessions st
   \<and> clients (sendToClient client message st) = clients st
   \<and> sessionObjects (sendToClient client message st) = sessionObjects st
   \<and> timeouts (sendToClient client message st) = timeouts st"
proof (cases "writableEnded (responseObjects st (response client))")
  case True
  then have "sendToClient client message st = st"
    by (simp add: sendToClient_def)
  then show ?thesis using True by simp
next
  case False
  then have appended: "sendToClient client message st
      = response_write (response client) (sse_data_frame (serializeMessage message)) st"
    by (simp add: sendToClient_def)
  have "written (responseObjects (sendToClient client message st) (response client))
      = written (responseObjects st (response client))
          @ [''data: '' @ js_String (serializeMessage message) @ [CHR 0x0A, CHR 0x0A]]"
    unfolding appended by (simp add: response_write_def sse_data_frame_def)
  moreover have "\<forall>r. r \<noteq> response client \<longrightarrow>
      responseObjects (sendToClient client message st) r = responseObjects st r"
    unfolding appended by (simp add: response_write_def)
  ultimately show ?thesis using False by simp
qed

theorem sendToClient_drops_or_writes_one_frame_witness:
  "written (responseObjects
       (sendToClient provider_client (JObj [(''jsonrpc'', JStr ''2.0''), (''method'', JStr ''ping'')])
          run_provider) 0)
     = written (responseObjects run_provider 0)
         @ [''data: {\"jsonrpc\":\"2.0\",\"method\":\"ping\"}'' @ [CHR 0x0A, CHR 0x0A]]
   \<and> sendToClient provider_client (JObj [(''jsonrpc'', JStr ''2.0''), (''method'', JStr ''ping'')])
         (response_end 0 run_provider)
     = response_end 0 run_provider"
proof -
  have frame: "''data: '' @ js_String (serializeMessage
        (JObj [(''jsonrpc'', JStr ''2.0''), (''method'', JStr ''ping'')])) @ [CHR 0x0A, CHR 0x0A]
      = ''data: {\"jsonrpc\":\"2.0\",\"method\":\"ping\"}'' @ [CHR 0x0A, CHR 0x0A]"
    using serialize_ping by (simp add: sse_data_frame_def)
  have opened: "\<not> writableEnded (responseObjects run_provider (response provider_client))"
    by (simp add: run_provider_fields)
  have ended: "writableEnded (responseObjects (response_end 0 run_provider) (response provider_client))"
    by (simp add: response_end_def)
  note open_case = sendToClient_drops_or_writes_one_frame
            [where client = provider_client
               and message = "JObj [(''jsonrpc'', JStr ''2.0''), (''method'', JStr ''ping'')]"
               and st = run_provider, THEN conjunct2, THEN conjunct1]
  note ended_case = sendToClient_drops_or_writes_one_frame
            [where client = provider_client
               and message = "JObj [(''jsonrpc'', JStr ''2.0''), (''method'', JStr ''ping'')]"
               and st = "response_end 0 run_provider", THEN conjunct1]
  have one_frame: "written (responseObjects
       (sendToClient provider_client (JObj [(''jsonrpc'', JStr ''2.0''), (''method'', JStr ''ping'')])
          run_provider) 0)
     = written (responseObjects run_provider 0)
         @ [''data: {\"jsonrpc\":\"2.0\",\"method\":\"ping\"}'' @ [CHR 0x0A, CHR 0x0A]]"
    using open_case opened frame by simp
  have dropped: "sendToClient provider_client
         (JObj [(''jsonrpc'', JStr ''2.0''), (''method'', JStr ''ping'')])
         (response_end 0 run_provider)
     = response_end 0 run_provider"
    using ended_case ended by simp
  show ?thesis using one_frame dropped by (rule conjI)
qed

section \<open>The provider invariant\<close>

text \<open>
  In every reachable state of the relay each session of the \<open>sessions\<close> map is an object of
  its own, and its provider, if any, has a stream of its own that has not been ended:
  the relay ends a stream only when it replaces the provider or stops.
\<close>

lemma same_providers_refl [simp]: "same_providers st st"
  by (simp add: same_providers_def)

lemma same_providers_trans:
  "same_providers st st' \<Longrightarrow> same_providers st' st'' \<Longrightarrow> same_providers st st''"
  by (simp add: same_providers_def)

lemma same_providers_invariant:
  "same_providers st st' \<Longrightarrow> providers_open st \<Longrightarrow> providers_open st'"
  by (simp add: same_providers_def providers_open_def)

lemma sendToClient_nextObject [simp]: "nextObject (sendToClient c m st) = nextObject st"
  by (simp add: sendToClient_def response_write_def Let_def)

lemma sendToClient_same_providers: "same_providers st (sendToClient c m st)"
  by (simp add: same_providers_def)

lemma sendToClient_same_providers':
  "same_providers st st' \<Longrightarrow> same_providers st (sendToClient c m st')"
  using same_providers_trans sendToClient_same_providers by blast

lemma sendToAgents_same_providers':
  "same_providers st st' \<Longrightarrow> same_providers st (sendToAgents agents m st')"
  unfolding sendToAgents_def
  by (induction agents arbitrary: st') (simp_all add: sendToClient_same_providers')

lemma update_session_same_providers':
  "same_providers st st' \<Longrightarrow> (\<And>s. browserClient (f s) = browserClient s)
    \<Longrightarrow> same_providers st (update_session a f st')"
  by (simp add: same_providers_def update_session_def)

lemma handleToolsRegister_same_providers:
  "same_providers st (snd (handleToolsRegister session req st))"
  by (auto simp add: handleToolsRegister_def Let_def sendToClient_same_providers'
        sendToAgents_same_providers' update_session_same_providers'
        split: option.splits sum.splits)

lemma forward_to_browser_same_providers:
  "same_providers st (forward_to_browser now callback a browser req senderClient st)"
  by (simp add: forward_to_browser_def Let_def split_def same_providers_def update_session_def)

lemma handleToolsList_same_providers:
  "same_providers st (handleToolsList now session req senderClient st)"
  by (auto simp add: handleToolsList_def Let_def sendToClient_same_providers
        forward_to_browser_same_providers split: option.splits)

lemma handleToolsCall_same_providers:
  "same_providers st (handleToolsCall now session req senderClient st)"
  by (auto simp add: handleToolsCall_def Let_def sendToClient_same_providers
        forward_to_browser_same_providers split: option.splits)

lemma handleToolResponse_same_providers:
  "same_providers st (handleToolResponse session resp st)"
  by (auto simp add: handleToolResponse_def Let_def sendToClient_same_providers'
        update_session_same_providers' split: option.splits)

lemma handleSessionJoin_same_providers:
  "same_providers st (snd (handleSessionJoin sid req clientId st))"
  by (auto simp add: handleSessionJoin_def Let_def sendToClient_same_providers
        sendToClient_same_providers' update_session_same_providers' split: option.splits)

lemma handlePing_same_providers:
  "same_providers st (handlePing now session req senderClient st)"
  by (auto simp add: handlePing_def Let_def sendToClient_same_providers split: option.splits)

lemma routeMessage_same_providers:
  "same_providers st (snd (routeMessage now sid message clientId st))"
  by (simp add: routeMessage_def Let_def handleToolsRegister_same_providers
        handleToolsList_same_providers handleToolsCall_same_providers
        handleToolResponse_same_providers handleSessionJoin_same_providers
        handlePing_same_providers)

lemma timeoutFires_same_providers: "same_providers st (timeoutFires callback st)"
proof -
  have "same_providers st (st\<lparr>timeouts := ts\<rparr>)" for ts
    by (simp add: same_providers_def)
  then show ?thesis
    by (auto simp add: timeoutFires_def toolsListTimeoutFires_def toolsCallTimeoutFires_def
          Let_def sendToClient_same_providers' update_session_same_providers'
          split: timeout_callback.splits option.splits)
qed

lemma keepAliveFires_same_providers: "same_providers st (keepAliveFires res st)"
  by (simp add: keepAliveFires_def same_providers_def response_write_def)

lemma fewer_providers_invariant:
  assumes fewer: "fewer_providers st st'" and inv: "providers_open st"
  shows "providers_open st'"
proof -
  have bound: "\<forall>sid a. map_of (sessions st') sid = Some a \<longrightarrow> a < nextObject st'"
    using fewer inv by (auto simp add: fewer_providers_def providers_open_def)
  have own_object: "\<forall>sid sid' a. map_of (sessions st') sid = Some a
      \<and> map_of (sessions st') sid' = Some a \<longrightarrow> sid = sid'"
  proof (intro allI impI)
    fix sid sid' a
    assume "map_of (sessions st') sid = Some a \<and> map_of (sessions st') sid' = Some a"
    then have "map_of (sessions st) sid = Some a \<and> map_of (sessions st) sid' = Some a"
      using fewer by (simp add: fewer_providers_def)
    then show "sid = sid'"
      using inv unfolding providers_open_def by blast
  qed
  have opened: "\<forall>sid a c. map_of (sessions st') sid = Some a
      \<and> browserClient (sessionObjects st' a) = Some c
      \<longrightarrow> response c < nextObject st' \<and> \<not> writableEnded (responseObjects st' (response c))"
  proof (intro allI impI)
    fix sid a c
    assume "map_of (sessions st') sid = Some a \<and> browserClient (sessionObjects st' a) = Some c"
    then have "map_of (sessions st) sid = Some a \<and> browserClient (sessionObjects st a) = Some c"
      using fewer by (simp add: fewer_providers_def)
    then have "response c < nextObject st \<and> \<not> writableEnded (responseObjects st (response c))"
      using inv unfolding providers_open_def by blast
    then show "response c < nextObject st' \<and> \<not> writableEnded (responseObjects st' (response c))"
      using fewer by (simp add: fewer_providers_def)
  qed
  have own_stream: "\<forall>sid sid' a a' c c'.
      map_of (sessions st') sid = Some a \<and> browserClient (sessionObjects st' a) = Some c
      \<and> map_of (sessions st') sid' = Some a' \<and> browserClient (sessionObjects st' a') = Some c'
      \<and> response c = response c' \<longrightarrow> sid = sid'"
  proof (intro allI impI)
    fix sid sid' a a' c c'
    assume "map_of (sessions st') sid = Some a \<and> browserClient (sessionObjects st' a) = Some c
        \<and> map_of (sessions st') sid' = Some a' \<and> browserClient (sessionObjects st' a') = Some c'
        \<and> response c = response c'"
    then have "map_of (sessions st) sid = Some a \<and> browserClient (sessionObjects st a) = Some c
        \<and> map_of (sessions st) sid' = Some a' \<and> browserClient (sessionObjects st a') = Some c'
        \<and> response c = response c'"
      using fewer by (simp add: fewer_providers_def)
    then show "sid = sid'"
      using inv unfolding providers_open_def by blast
  qed
  show ?thesis
    unfolding providers_open_def using bound own_object opened own_stream by (intro conjI)
qed

lemma sendToAgents_responses [simp]:
  "nextObject (sendToAgents agents m st) = nextObject st"
  "writableEnded (responseObjects (sendToAgents agents m st) r) = writableEnded (responseObjects st r)"
  unfolding sendToAgents_def
  by (induction agents arbitrary: st; simp)+

lemma update_session_nextObject [simp]:
  "nextObject (update_session a f st) = nextObject st"
  by (simp add: update_session_def)

lemma handleDisconnect_fewer_providers: "fewer_providers st (handleDisconnect clientId st)"
  by (auto simp add: handleDisconnect_def fewer_providers_def Let_def delete_conv'
        update_session_def split: option.splits if_splits)

lemma stop_providers_open: "providers_open (stop st)"
  by (simp add: stop_def providers_open_def Let_def)

lemma handleBrowserConnect_new_session:
  assumes "map_of (sessions st) (sessionId client) = None"
  shows "sessions (handleBrowserConnect date client st)
           = AList.update (sessionId client) (nextObject st) (sessions st)"
    and "nextObject (handleBrowserConnect date client st) = nextObject st + 1"
    and "responseObjects (handleBrowserConnect date client st) = responseObjects st"
    and "browserClient (sessionObjects (handleBrowserConnect date client st) b)
           = (if b = nextObject st then Some client else browserClient (sessionObjects st b))"
  using assms by (simp_all add: handleBrowserConnect_def Let_def)

lemma handleBrowserConnect_existing_session:
  assumes "map_of (sessions st) (sessionId client) = Some a"
  shows "sessions (handleBrowserConnect date client st) = sessions st"
    and "nextObject (handleBrowserConnect date client st) = nextObject st"
    and "browserClient (sessionObjects (handleBrowserConnect date client st) b)
           = (if b = a then Some client else browserClient (sessionObjects st b))"
    and "writableEnded (responseObjects (handleBrowserConnect date client st) r)
           = (writableEnded (responseObjects st r)
              \<or> map_option response (browserClient (sessionObjects st a)) = Some r)"
  using assms
  by (auto simp add: handleBrowserConnect_def Let_def update_session_def response_end_def
        split: option.splits)

lemma handleBrowserConnect_invariant:
  assumes inv: "providers_open st"
      and bound: "response client < nextObject st"
      and opened: "\<not> writableEnded (responseObjects st (response client))"
      and fresh: "\<forall>sid a c. map_of (sessions st) sid = Some a
                   \<and> browserClient (sessionObjects st a) = Some c \<longrightarrow> response c \<noteq> response client"
  shows "providers_open (handleBrowserConnect date client st)"
proof (cases "map_of (sessions st) (sessionId client)")
  case None
  let ?st' = "handleBrowserConnect date client st"
  note new = handleBrowserConnect_new_session [OF None, of date]
  have lookup: "map_of (sessions ?st') sid
      = (if sid = sessionId client then Some (nextObject st) else map_of (sessions st) sid)" for sid
    by (simp add: new update_conv')
  have old_bound: "map_of (sessions st) sid = Some a \<Longrightarrow> a < nextObject st" for sid a
    using inv unfolding providers_open_def by blast
  have p1: "\<forall>sid a. map_of (sessions ?st') sid = Some a \<longrightarrow> a < nextObject ?st'"
  proof (intro allI impI)
    fix sid a
    assume h: "map_of (sessions ?st') sid = Some a"
    show "a < nextObject ?st'"
    proof (cases "sid = sessionId client")
      case True
      then have "a = nextObject st" using h by (simp add: lookup)
      then show ?thesis by (simp add: new(2))
    next
      case False
      then have "map_of (sessions st) sid = Some a" using h by (simp add: lookup)
      then have "a < nextObject st" by (rule old_bound)
      then show ?thesis by (simp add: new(2))
    qed
  qed
  have p2: "\<forall>sid sid' a. map_of (sessions ?st') sid = Some a
      \<and> map_of (sessions ?st') sid' = Some a \<longrightarrow> sid = sid'"
  proof (intro allI impI)
    fix sid sid' a
    assume both: "map_of (sessions ?st') sid = Some a \<and> map_of (sessions ?st') sid' = Some a"
    show "sid = sid'"
    proof (cases "sid = sessionId client \<or> sid' = sessionId client")
      case True
      have "map_of (sessions st) x = Some (nextObject st) \<Longrightarrow> False" for x
        using old_bound [of x "nextObject st"] by simp
      then show ?thesis
        using both True by (auto simp add: lookup split: if_splits)
    next
      case False
      then have "map_of (sessions st) sid = Some a \<and> map_of (sessions st) sid' = Some a"
        using both by (simp add: lookup)
      then show ?thesis using inv unfolding providers_open_def by blast
    qed
  qed
  have provider_of: "map_of (sessions ?st') sid = Some a
      \<Longrightarrow> browserClient (sessionObjects ?st' a) = Some c
      \<Longrightarrow> (sid = sessionId client \<and> c = client)
          \<or> (sid \<noteq> sessionId client \<and> map_of (sessions st) sid = Some a
              \<and> browserClient (sessionObjects st a) = Some c)" for sid a c
  proof -
    assume h: "map_of (sessions ?st') sid = Some a" "browserClient (sessionObjects ?st' a) = Some c"
    show ?thesis
    proof (cases "sid = sessionId client")
      case True
      then have "a = nextObject st" using h(1) by (simp add: lookup)
      then have "c = client" using h(2) by (simp add: new(4))
      then show ?thesis using True by simp
    next
      case False
      then have old: "map_of (sessions st) sid = Some a" using h(1) by (simp add: lookup)
      then have "a \<noteq> nextObject st" using old_bound [of sid a] by simp
      then have "browserClient (sessionObjects st a) = Some c" using h(2) by (simp add: new(4))
      then show ?thesis using False old by simp
    qed
  qed
  have p3: "\<forall>sid a c. map_of (sessions ?st') sid = Some a
      \<and> browserClient (sessionObjects ?st' a) = Some c
      \<longrightarrow> response c < nextObject ?st' \<and> \<not> writableEnded (responseObjects ?st' (response c))"
  proof (intro allI impI)
    fix sid a c
    assume "map_of (sessions ?st') sid = Some a \<and> browserClient (sessionObjects ?st' a) = Some c"
    then consider "c = client"
      | "map_of (sessions st) sid = Some a \<and> browserClient (sessionObjects st a) = Some c"
      using provider_of by blast
    then show "response c < nextObject ?st' \<and> \<not> writableEnded (responseObjects ?st' (response c))"
    proof cases
      case 1
      then show ?thesis using bound opened by (simp add: new)
    next
      case 2
      then have "response c < nextObject st \<and> \<not> writableEnded (responseObjects st (response c))"
        using inv unfolding providers_open_def by blast
      then show ?thesis by (simp add: new)
    qed
  qed
  have p4: "\<forall>sid sid' a a' c c'.
      map_of (sessions ?st') sid = Some a \<and> browserClient (sessionObjects ?st' a) = Some c
      \<and> map_of (sessions ?st') sid' = Some a' \<and> browserClient (sessionObjects ?st' a') = Some c'
      \<and> response c = response c' \<longrightarrow> sid = sid'"
  proof (intro allI impI)
    fix sid sid' a a' c c'
    assume h: "map_of (sessions ?st') sid = Some a \<and> browserClient (sessionObjects ?st' a) = Some c
      \<and> map_of (sessions ?st') sid' = Some a' \<and> browserClient (sessionObjects ?st' a') = Some c'
      \<and> response c = response c'"
    have c: "(sid = sessionId client \<and> c = client)
          \<or> (sid \<noteq> sessionId client \<and> map_of (sessions st) sid = Some a
              \<and> browserClient (sessionObjects st a) = Some c)"
      using h provider_of by blast
    have c': "(sid' = sessionId client \<and> c' = client)
          \<or> (sid' \<noteq> sessionId client \<and> map_of (sessions st) sid' = Some a'
              \<and> browserClient (sessionObjects st a') = Some c')"
      using h provider_of by blast
    have same: "response c = response c'" using h by simp
    show "sid = sid'"
      using c c' same fresh inv unfolding providers_open_def by metis
  qed
  show ?thesis
    unfolding providers_open_def using p1 p2 p3 p4 by (intro conjI)
next
  case (Some a)
  let ?st' = "handleBrowserConnect date client st"
  note ex = handleBrowserConnect_existing_session [OF Some, of date]
  have own: "map_of (sessions st) sid = Some b \<Longrightarrow> b = a \<Longrightarrow> sid = sessionId client" for sid b
    using inv Some unfolding providers_open_def by blast
  have p1: "\<forall>sid b. map_of (sessions ?st') sid = Some b \<longrightarrow> b < nextObject ?st'"
    using inv unfolding providers_open_def by (simp add: ex)
  have p2: "\<forall>sid sid' b. map_of (sessions ?st') sid = Some b
      \<and> map_of (sessions ?st') sid' = Some b \<longrightarrow> sid = sid'"
    using inv unfolding providers_open_def by (simp add: ex)
  have ended_only_incumbent: "writableEnded (responseObjects ?st' r)
      \<Longrightarrow> writableEnded (responseObjects st r)
          \<or> (\<exists>old. browserClient (sessionObjects st a) = Some old \<and> response old = r)" for r
    by (auto simp add: ex)
  have p3: "\<forall>sid b c. map_of (sessions ?st') sid = Some b
      \<and> browserClient (sessionObjects ?st' b) = Some c
      \<longrightarrow> response c < nextObject ?st' \<and> \<not> writableEnded (responseObjects ?st' (response c))"
  proof (intro allI impI)
    fix sid b c
    assume h: "map_of (sessions ?st') sid = Some b \<and> browserClient (sessionObjects ?st' b) = Some c"
    show "response c < nextObject ?st' \<and> \<not> writableEnded (responseObjects ?st' (response c))"
    proof (cases "b = a")
      case True
      then have c: "c = client" using h by (simp add: ex)
      have "\<not> writableEnded (responseObjects ?st' (response client))"
        using ended_only_incumbent [of "response client"] opened fresh Some by blast
      then show ?thesis using c bound by (simp add: ex)
    next
      case False
      then have old: "map_of (sessions st) sid = Some b \<and> browserClient (sessionObjects st b) = Some c"
        using h by (simp add: ex)
      then have ok: "response c < nextObject st \<and> \<not> writableEnded (responseObjects st (response c))"
        using inv unfolding providers_open_def by blast
      have "sid \<noteq> sessionId client" using old Some False by auto
      then have "\<not> (\<exists>old. browserClient (sessionObjects st a) = Some old
          \<and> response old = response c)"
        using inv old Some unfolding providers_open_def by metis
      then have "\<not> writableEnded (responseObjects ?st' (response c))"
        using ended_only_incumbent [of "response c"] ok by blast
      then show ?thesis using ok by (simp add: ex)
    qed
  qed
  have p4: "\<forall>sid sid' b b' c c'.
      map_of (sessions ?st') sid = Some b \<and> browserClient (sessionObjects ?st' b) = Some c
      \<and> map_of (sessions ?st') sid' = Some b' \<and> browserClient (sessionObjects ?st' b') = Some c'
      \<and> response c = response c' \<longrightarrow> sid = sid'"
  proof (intro allI impI)
    fix sid sid' b b' c c'
    assume h: "map_of (sessions ?st') sid = Some b \<and> browserClient (sessionObjects ?st' b) = Some c
      \<and> map_of (sessions ?st') sid' = Some b' \<and> browserClient (sessionObjects ?st' b') = Some c'
      \<and> response c = response c'"
    then have s: "map_of (sessions st) sid = Some b" "map_of (sessions st) sid' = Some b'"
      and same: "response c = response c'"
      by (simp_all add: ex)
    have c: "(b = a \<and> c = client) \<or> (b \<noteq> a \<and> browserClient (sessionObjects st b) = Some c)"
      using h by (auto simp add: ex split: if_splits)
    have c': "(b' = a \<and> c' = client) \<or> (b' \<noteq> a \<and> browserClient (sessionObjects st b') = Some c')"
      using h by (auto simp add: ex split: if_splits)
    show "sid = sid'"
      using c c' s same fresh own inv unfolding providers_open_def by metis
  qed
  show ?thesis
    unfolding providers_open_def using p1 p2 p3 p4 by (intro conjI)
qed

lemma allocate_response_invariant:
  assumes inv: "providers_open st"
  shows "providers_open (st\<lparr>messageCounter := counter, nextObject := nextObject st + 1,
            responseObjects := (responseObjects st)(nextObject st := obj)\<rparr>)"
proof -
  let ?st' = "st\<lparr>messageCounter := counter, nextObject := nextObject st + 1,
            responseObjects := (responseObjects st)(nextObject st := obj)\<rparr>"
  have same: "sessions ?st' = sessions st" "sessionObjects ?st' = sessionObjects st"
    "nextObject ?st' = Suc (nextObject st)"
    by simp_all
  have p1: "\<forall>sid a. map_of (sessions ?st') sid = Some a \<longrightarrow> a < nextObject ?st'"
    using inv unfolding providers_open_def same by (simp add: less_Suc_eq)
  have p2: "\<forall>sid sid' a. map_of (sessions ?st') sid = Some a
      \<and> map_of (sessions ?st') sid' = Some a \<longrightarrow> sid = sid'"
    using inv unfolding providers_open_def same by blast
  have p3: "\<forall>sid a c. map_of (sessions ?st') sid = Some a
      \<and> browserClient (sessionObjects ?st' a) = Some c
      \<longrightarrow> response c < nextObject ?st' \<and> \<not> writableEnded (responseObjects ?st' (response c))"
  proof (intro allI impI)
    fix sid a c
    assume "map_of (sessions ?st') sid = Some a \<and> browserClient (sessionObjects ?st' a) = Some c"
    then have "map_of (sessions st) sid = Some a \<and> browserClient (sessionObjects st a) = Some c"
      by simp
    then have "response c < nextObject st \<and> \<not> writableEnded (responseObjects st (response c))"
      using inv unfolding providers_open_def by blast
    then show "response c < nextObject ?st' \<and> \<not> writableEnded (responseObjects ?st' (response c))"
      by simp
  qed
  have p4: "\<forall>sid sid' a a' c c'.
      map_of (sessions ?st') sid = Some a \<and> browserClient (sessionObjects ?st' a) = Some c
      \<and> map_of (sessions ?st') sid' = Some a' \<and> browserClient (sessionObjects ?st' a') = Some c'
      \<and> response c = response c' \<longrightarrow> sid = sid'"
    using inv unfolding providers_open_def same by blast
  show ?thesis
    unfolding providers_open_def using p1 p2 p3 p4 by (intro conjI)
qed

lemma providers_open_clients [simp]:
  "providers_open (st\<lparr>clients := cs\<rparr>) = providers_open st"
  "providers_open (st\<lparr>keepAliveIntervals := ks\<rparr>) = providers_open st"
  by (simp_all add: providers_open_def)

lemma handleAgentConnect_same_providers:
  "same_providers st (snd (handleAgentConnect client st))"
  by (simp add: handleAgentConnect_def sendToClient_same_providers split: sum.splits)

lemma handleSSE_invariant:
  assumes inv: "providers_open st"
  shows "providers_open (snd (handleSSE now date sessionId_param clientType_param st))"
proof -
  define clientId where "clientId = fst (generateMessageId now (messageCounter st))"
  define counter where "counter = snd (generateMessageId now (messageCounter st))"
  define res where "res = nextObject st"
  define st0 where "st0 = st\<lparr>messageCounter := counter, nextObject := res + 1,
      responseObjects := (responseObjects st)(res := \<lparr>writableEnded = False, written = []\<rparr>)\<rparr>"
  have inv0: "providers_open st0"
    unfolding st0_def res_def by (rule allocate_response_invariant [OF inv])
  have rejected: "providers_open (response_end res (response_write res chunk st0))" for chunk
  proof -
    have "response_end res (response_write res chunk st0)
        = st\<lparr>messageCounter := counter, nextObject := nextObject st + 1,
             responseObjects := (responseObjects st)
               (nextObject st := \<lparr>writableEnded = True, written = [chunk]\<rparr>)\<rparr>"
      by (simp add: st0_def res_def response_end_def response_write_def)
    then show ?thesis
      using allocate_response_invariant [OF inv] by simp
  qed
  show ?thesis
  proof (cases "sessionId_param = None \<or> sessionId_param = Some []")
    case True
    then show ?thesis
      using rejected
      by (auto simp add: handleSSE_def Let_def split_def st0_def res_def counter_def)
  next
    case False
    then obtain sid where sid: "sessionId_param = Some sid" "sid \<noteq> []"
      by auto
    define client where "client = \<lparr>client_id = clientId,
        client_type = (case clientType_param of None \<Rightarrow> ''agent'' | Some t \<Rightarrow> t),
        response = res, sessionId = sid\<rparr>"
    define st1 where "st1 = st0\<lparr>clients := AList.update clientId client (clients st0)\<rparr>"
    define attached where "attached =
        (if client_type client = ''browser'' then (None, handleBrowserConnect date client st1)
         else handleAgentConnect client st1)"
    have inv1: "providers_open st1"
      using inv0 by (simp add: st1_def)
    have fresh: "\<forall>sid a c. map_of (sessions st1) sid = Some a
        \<and> browserClient (sessionObjects st1 a) = Some c \<longrightarrow> response c \<noteq> response client"
    proof (intro allI impI)
      fix sid a c
      assume "map_of (sessions st1) sid = Some a \<and> browserClient (sessionObjects st1 a) = Some c"
      then have "map_of (sessions st) sid = Some a \<and> browserClient (sessionObjects st a) = Some c"
        by (simp add: st1_def st0_def)
      then have "response c < nextObject st"
        using inv unfolding providers_open_def by blast
      then show "response c \<noteq> response client"
        by (simp add: client_def res_def)
    qed
    have inv2: "providers_open (snd attached)"
    proof (cases "client_type client = ''browser''")
      case True
      have "providers_open (handleBrowserConnect date client st1)"
      proof (rule handleBrowserConnect_invariant [OF inv1 _ _ fresh])
        show "response client < nextObject st1"
          by (simp add: client_def st1_def st0_def)
        show "\<not> writableEnded (responseObjects st1 (response client))"
          by (simp add: client_def st1_def st0_def)
      qed
      then show ?thesis using True by (simp add: attached_def)
    next
      case False
      then show ?thesis
        using same_providers_invariant [OF handleAgentConnect_same_providers inv1]
        by (simp add: attached_def)
    qed
    have result: "snd (handleSSE now date sessionId_param clientType_param st)
        = (if fst attached \<noteq> None then snd attached
           else sendToClient client
                  (JObj [(''jsonrpc'', JStr ''2.0''), (''method'', JStr ''connected''),
                         (''params'', JObj [(''clientId'', JStr clientId),
                                            (''sessionId'', JStr sid),
                                            (''clientType'', JStr (client_type client))])])
                  ((snd attached)\<lparr>keepAliveIntervals :=
                      AList.update clientId res (keepAliveIntervals (snd attached))\<rparr>))"
      using sid
      by (simp add: handleSSE_def Let_def split_def attached_def st1_def st0_def client_def
            res_def counter_def clientId_def)
    show ?thesis
      unfolding result
      using inv2 same_providers_invariant [OF sendToClient_same_providers]
      by simp
  qed
qed

lemma reachable_providers_open: "reachable st \<Longrightarrow> providers_open st"
proof (induction rule: reachable.induct)
  case (start keepAlive reqTimeout)
  show ?case by (simp add: providers_open_def new_BTCPServer_def)
next
  case (attach st now date sessionId_param clientType_param)
  then show ?case by (simp add: handleSSE_invariant)
next
  case (ingest st now sid message clientId)
  then show ?case using same_providers_invariant [OF routeMessage_same_providers] by blast
next
  case (close st clientId)
  then show ?case using fewer_providers_invariant [OF handleDisconnect_fewer_providers] by blast
next
  case (timer st callback)
  then show ?case using same_providers_invariant [OF timeoutFires_same_providers] by blast
next
  case (keepAlive st res)
  then show ?case using same_providers_invariant [OF keepAliveFires_same_providers] by blast
next
  case (stopped st)
  show ?case by (rule stop_providers_open)
qed

lemma handleBrowserConnect_takeover:
  assumes "map_of (sessions st) (sessionId client) = Some a"
      and "browserClient (sessionObjects st a) = Some old"
  shows "browserClient (sessionObjects (handleBrowserConnect date client st) a) = Some client
     \<and> writableEnded (responseObjects (handleBrowserConnect date client st) (response old))
     \<and> written (responseObjects (handleBrowserConnect date client st) (response old)) =
         (if writableEnded (responseObjects st (response old))
          then written (responseObjects st (response old))
          else written (responseObjects st (response old))
                 @ [sse_data_frame (serializeMessage
                      (JObj [(''jsonrpc'', JStr ''2.0''), (''id'', JStr ''disconnect''),
                             (''error'', JObj [(''code'', JNum (- 32002)),
                                (''message'',
                                 JStr ''Another browser client connected to this session'')])]))])
     \<and> (\<forall>r. r \<noteq> response old \<longrightarrow>
           responseObjects (handleBrowserConnect date client st) r = responseObjects st r)
     \<and> sessions (handleBrowserConnect date client st) = sessions st
     \<and> (\<forall>b. b \<noteq> a \<longrightarrow>
           sessionObjects (handleBrowserConnect date client st) b = sessionObjects st b)"
  using assms
  by (simp add: handleBrowserConnect_def sendToClient_def response_write_def response_end_def
        update_session_def createErrorResponse_def SESSION_ERROR_def Let_def)


section \<open>Provider takeover\<close>

text \<open>
  Claim C2. A session holds its provider in the single field \<open>browserClient\<close>, so it has at
  most one. In a reachable state of the relay, let a provider attach to a session that
  already has one. Then the incumbent receives exactly one more frame, the error
  response with code -32002 (session error), and its stream is ended; the new peer,
  with the stream opened for it, becomes the provider of the session and receives the
  \<open>connected\<close> notification; the \<open>sessions\<close> map is unchanged.
\<close>

theorem provider_takeover:
  assumes reach: "reachable st"
      and sid: "sid \<noteq> []"
      and session: "map_of (sessions st) sid = Some a"
      and incumbent: "browserClient (sessionObjects st a) = Some old"
  shows "fst (handleSSE now date (Some sid) (Some ''browser'') st) = None
     \<and> sessions (snd (handleSSE now date (Some sid) (Some ''browser'') st)) = sessions st
     \<and> browserClient (sessionObjects (snd (handleSSE now date (Some sid) (Some ''browser'') st)) a)
         = Some \<lparr>client_id = fst (generateMessageId now (messageCounter st)),
                 client_type = ''browser'', response = nextObject st, sessionId = sid\<rparr>
     \<and> writableEnded (responseObjects (snd (handleSSE now date (Some sid) (Some ''browser'') st))
           (response old))
     \<and> written (responseObjects (snd (handleSSE now date (Some sid) (Some ''browser'') st))
           (response old))
         = written (responseObjects st (response old))
             @ [sse_data_frame (serializeMessage
                  (JObj [(''jsonrpc'', JStr ''2.0''), (''id'', JStr ''disconnect''),
                         (''error'', JObj [(''code'', JNum (- 32002)),
                            (''message'',
                             JStr ''Another browser client connected to this session'')])]))]
     \<and> \<not> writableEnded (responseObjects (snd (handleSSE now date (Some sid) (Some ''browser'') st))
           (nextObject st))
     \<and> written (responseObjects (snd (handleSSE now date (Some sid) (Some ''browser'') st))
           (nextObject st))
         = [sse_data_frame (serializeMessage
              (JObj [(''jsonrpc'', JStr ''2.0''), (''method'', JStr ''connected''),
                     (''params'', JObj [(''clientId'',
                                           JStr (fst (generateMessageId now (messageCounter st)))),
                                        (''sessionId'', JStr sid),
                                        (''clientType'', JStr ''browser'')])]))]"
proof -
  define res where "res = nextObject st"
  define client where "client = \<lparr>client_id = fst (generateMessageId now (messageCounter st)),
      client_type = ''browser'', response = res, sessionId = sid\<rparr>"
  define st1 where "st1 = st\<lparr>messageCounter := snd (generateMessageId now (messageCounter st)),
      nextObject := res + 1,
      responseObjects := (responseObjects st)(res := \<lparr>writableEnded = False, written = []\<rparr>),
      clients := AList.update (client_id client) client (clients st)\<rparr>"
  define st2 where "st2 = handleBrowserConnect date client st1"
  define connected_msg where "connected_msg =
      JObj [(''jsonrpc'', JStr ''2.0''), (''method'', JStr ''connected''),
            (''params'', JObj [(''clientId'', JStr (client_id client)),
                               (''sessionId'', JStr sid),
                               (''clientType'', JStr ''browser'')])]"
  have "providers_open st"
    using reach by (rule reachable_providers_open)
  then have old_open: "response old < res" "\<not> writableEnded (responseObjects st (response old))"
    using session incumbent unfolding providers_open_def res_def by blast+
  have result: "handleSSE now date (Some sid) (Some ''browser'') st
      = (None, sendToClient client connected_msg
                 (st2\<lparr>keepAliveIntervals :=
                       AList.update (client_id client) res (keepAliveIntervals st2)\<rparr>))"
    using sid
    by (simp add: handleSSE_def Let_def split_def st2_def st1_def client_def res_def
          connected_msg_def)
  have session1: "map_of (sessions st1) (sessionId client) = Some a"
    using session by (simp add: st1_def client_def)
  have incumbent1: "browserClient (sessionObjects st1 a) = Some old"
    using incumbent by (simp add: st1_def)
  have old1: "responseObjects st1 (response old) = responseObjects st (response old)"
    using old_open by (simp add: st1_def)
  note takeover = handleBrowserConnect_takeover [OF session1 incumbent1, of date,
      folded st2_def]
  have provider: "browserClient (sessionObjects st2 a) = Some client"
    using takeover by blast
  have ended: "writableEnded (responseObjects st2 (response old))"
    using takeover by blast
  have error_frame: "written (responseObjects st2 (response old))
      = written (responseObjects st (response old))
          @ [sse_data_frame (serializeMessage
               (JObj [(''jsonrpc'', JStr ''2.0''), (''id'', JStr ''disconnect''),
                      (''error'', JObj [(''code'', JNum (- 32002)),
                         (''message'',
                          JStr ''Another browser client connected to this session'')])]))]"
    using takeover old_open(2) by (simp add: old1)
  have "responseObjects st2 res = responseObjects st1 res"
    using takeover old_open(1) by (metis less_irrefl)
  then have new_stream: "responseObjects st2 res = \<lparr>writableEnded = False, written = []\<rparr>"
    by (simp add: st1_def)
  have sessions2: "sessions st2 = sessions st"
    using takeover by (simp add: st1_def)
  have res_client: "response client = res"
    by (simp add: client_def)
  have different: "response old \<noteq> res"
    using old_open(1) by simp
  have client_id: "client_id client = fst (generateMessageId now (messageCounter st))"
    by (simp add: client_def)
  show ?thesis
    unfolding result
    using provider ended error_frame new_stream sessions2 different
    by (simp add: sendToClient_written res_client connected_msg_def client_id
          res_def [symmetric] client_def [symmetric])
qed

theorem provider_takeover_witness:
  "browserClient (sessionObjects
       (snd (handleSSE 1001 ''2026-01-01T00:00:01.000Z'' (Some ''E'') (Some ''browser'') run_provider)) 1)
     = Some second_provider_client
   \<and> writableEnded (responseObjects
       (snd (handleSSE 1001 ''2026-01-01T00:00:01.000Z'' (Some ''E'') (Some ''browser'') run_provider)) 0)
   \<and> written (responseObjects
       (snd (handleSSE 1001 ''2026-01-01T00:00:01.000Z'' (Some ''E'') (Some ''browser'') run_provider)) 0)
     = written (responseObjects run_provider 0)
         @ [sse_data_frame (serializeMessage
              (JObj [(''jsonrpc'', JStr ''2.0''), (''id'', JStr ''disconnect''),
                     (''error'', JObj [(''code'', JNum (- 32002)),
                        (''message'', JStr ''Another browser client connected to this session'')])]))]
   \<and> \<not> writableEnded (responseObjects
       (snd (handleSSE 1001 ''2026-01-01T00:00:01.000Z'' (Some ''E'') (Some ''browser'') run_provider)) 2)"
proof -
  have reach: "reachable run_provider"
    unfolding run_provider_def by (rule reachable.attach [OF reachable.start])
  have sid: "''E'' \<noteq> []"
    by simp
  have session: "map_of (sessions run_provider) ''E'' = Some 1"
    by (simp add: run_provider_fields)
  have incumbent: "browserClient (sessionObjects run_provider 1) = Some provider_client"
    by (simp add: run_provider_fields)
  have new_id: "fst (generateMessageId 1001 (Suc 0)) = ''btcp-1001-2''"
    by (simp add: generateMessageId_def string_of_int_def string_of_nat.simps digit_chars_def)
  show ?thesis
    using provider_takeover [OF reach sid session incumbent,
            of 1001 "''2026-01-01T00:00:01.000Z''"]
    by (simp add: new_id run_provider_fields second_provider_client_def)
qed

section \<open>Id rewriting and response correlation\<close>

text \<open>
  Claim C1. Let a caller request (\<open>tools/call\<close> or \<open>tools/list\<close>) be forwarded to the attached
  provider; it is stored under the internal id that \<open>generateMessageId\<close> returned. If the
  provider's response to that internal id arrives in a state where the pending entry is
  still the one stored, then handling the response removes the entry, and the only
  write it makes is one frame on the stream of the originating caller, provided the
  caller is in the session's caller map and its stream is open: the response with its
  id replaced by the id of the original request.
\<close>

theorem response_restores_original_id:
  assumes provider: "browserClient (sessionObjects st a) = Some browser"
      and forwarded: "st1 = handleToolsCall now (Some a) req senderClient st
                      \<or> st1 = handleToolsList now (Some a) req senderClient st"
      and present: "map_of (pendingResponses (sessionObjects st2 a))
                      (fst (generateMessageId now (messageCounter st)))
                    = map_of (pendingResponses (sessionObjects st1 a))
                      (fst (generateMessageId now (messageCounter st)))"
      and answer: "get_prop resp ''id'' = JStr (fst (generateMessageId now (messageCounter st)))"
  shows "written (responseObjects st1 (response browser)) =
           (if writableEnded (responseObjects st (response browser))
            then written (responseObjects st (response browser))
            else written (responseObjects st (response browser))
                   @ [sse_data_frame (serializeMessage
                        (spread_with req ''id''
                           (JStr (fst (generateMessageId now (messageCounter st))))))])
     \<and> map_of (pendingResponses (sessionObjects (handleToolResponse (Some a) resp st2) a))
           (fst (generateMessageId now (messageCounter st))) = None
     \<and> (\<forall>r. written (responseObjects (handleToolResponse (Some a) resp st2) r) =
          (case map_of (agentClients (sessionObjects st2 a))
                  (case senderClient of Some sender \<Rightarrow> client_id sender | None \<Rightarrow> []) of
             Some agent \<Rightarrow>
               if r = response agent \<and> \<not> writableEnded (responseObjects st2 (response agent))
               then written (responseObjects st2 r)
                      @ [sse_data_frame (serializeMessage (spread_with resp ''id'' (get_prop req ''id'')))]
               else written (responseObjects st2 r)
           | None \<Rightarrow> written (responseObjects st2 r)))
     \<and> get_prop (spread_with resp ''id'' (get_prop req ''id'')) ''id'' = get_prop req ''id''"
proof -
  let ?iid = "fst (generateMessageId now (messageCounter st))"
  let ?pending = "\<lparr>agentId = (case senderClient of Some sender \<Rightarrow> client_id sender | None \<Rightarrow> []),
                    originalId = get_prop req ''id'', timestamp = now\<rparr>"
  have "map_of (pendingResponses (sessionObjects st1 a)) ?iid = Some ?pending"
    using provider forwarded
    by (auto simp add: handleToolsCall_forward handleToolsList_forward forward_to_browser_pending)
  then have entry: "map_of (pendingResponses (sessionObjects st2 a)) (js_String (get_prop resp ''id''))
      = Some ?pending"
    using present answer by simp
  note eq = handleToolResponse_present [OF entry]
  have removed: "map_of (pendingResponses (sessionObjects (handleToolResponse (Some a) resp st2) a))
      ?iid = None"
    unfolding eq using answer
    by (simp add: delete_conv' split: option.splits)
  have pushed: "written (responseObjects (handleToolResponse (Some a) resp st2) r) =
          (case map_of (agentClients (sessionObjects st2 a))
                  (case senderClient of Some sender \<Rightarrow> client_id sender | None \<Rightarrow> []) of
             Some agent \<Rightarrow>
               if r = response agent \<and> \<not> writableEnded (responseObjects st2 (response agent))
               then written (responseObjects st2 r)
                      @ [sse_data_frame (serializeMessage (spread_with resp ''id'' (get_prop req ''id'')))]
               else written (responseObjects st2 r)
           | None \<Rightarrow> written (responseObjects st2 r))" for r
    unfolding eq
    by (simp add: sendToClient_written split: option.splits)
  have rewritten: "written (responseObjects st1 (response browser)) =
           (if writableEnded (responseObjects st (response browser))
            then written (responseObjects st (response browser))
            else written (responseObjects st (response browser))
                   @ [sse_data_frame (serializeMessage (spread_with req ''id'' (JStr ?iid)))])"
    using provider forwarded
    by (auto simp add: handleToolsCall_forward handleToolsList_forward forward_to_browser_written)
  show ?thesis
    using rewritten removed pushed get_prop_spread_with by blast
qed

theorem response_restores_original_id_witness:
  "map_of (pendingResponses (sessionObjects (handleToolResponse (Some 1) tool_response run_called) 1))
      ''btcp-1003-3'' = None
   \<and> written (responseObjects (handleToolResponse (Some 1) tool_response run_called) 2)
     = written (responseObjects run_called 2)
         @ [sse_data_frame (serializeMessage
              (JObj [(''jsonrpc'', JStr ''2.0''), (''id'', JNum 7),
                     (''result'', JObj [(''content'', JArr [JObj [(''type'', JStr ''text''),
                                                                   (''text'', JStr ''hi'')]]),
                                        (''isError'', JBool False)])]))]"
proof -
  have provider: "browserClient (sessionObjects run_joined 1) = Some provider_client"
    by (simp add: run_joined_fields)
  have forwarded: "run_called = handleToolsCall 1003 (Some 1) call_request (Some caller_client) run_joined
      \<or> run_called = handleToolsList 1003 (Some 1) call_request (Some caller_client) run_joined"
    using run_called_eq by simp
  have present: "map_of (pendingResponses (sessionObjects run_called 1))
        (fst (generateMessageId 1003 (messageCounter run_joined)))
      = map_of (pendingResponses (sessionObjects run_called 1))
        (fst (generateMessageId 1003 (messageCounter run_joined)))"
    by simp
  have answer: "get_prop tool_response ''id''
      = JStr (fst (generateMessageId 1003 (messageCounter run_joined)))"
    by (simp add: tool_response_def get_prop_def run_joined_fields internal_id_1003)
  have restored: "spread_with tool_response ''id'' (get_prop call_request ''id'')
      = JObj [(''jsonrpc'', JStr ''2.0''), (''id'', JNum 7),
              (''result'', JObj [(''content'', JArr [JObj [(''type'', JStr ''text''),
                                                            (''text'', JStr ''hi'')]]),
                                 (''isError'', JBool False)])]"
    by (simp add: spread_with_def tool_response_def call_request_def get_prop_def)
  note inst = response_restores_original_id [OF provider forwarded present answer]
  have removed: "map_of (pendingResponses (sessionObjects
        (handleToolResponse (Some 1) tool_response run_called) 1)) ''btcp-1003-3'' = None"
    using inst [THEN conjunct2, THEN conjunct1] by (simp add: run_joined_fields internal_id_1003)
  have pushed: "written (responseObjects (handleToolResponse (Some 1) tool_response run_called) 2)
     = written (responseObjects run_called 2)
         @ [sse_data_frame (serializeMessage
              (JObj [(''jsonrpc'', JStr ''2.0''), (''id'', JNum 7),
                     (''result'', JObj [(''content'', JArr [JObj [(''type'', JStr ''text''),
                                                                   (''text'', JStr ''hi'')]]),
                                        (''isError'', JBool False)])]))]"
    using inst [THEN conjunct2, THEN conjunct2, THEN conjunct1, THEN spec, of 2]
    by (simp add: run_called_fields restored)
  show ?thesis using removed pushed by (rule conjI)
qed

section \<open>Forward timeout\<close>

text \<open>
  Claim C3, as amended. Forwarding a \<open>tools/call\<close> or a \<open>tools/list\<close> starts a timer of
  \<open>requestTimeout\<close> for the internal id. When the timer fires while the pending entry is
  still the one stored, the entry is removed. A message is pushed only if the caller
  recorded in the entry is in the caller map of the session and its stream is open:
  then exactly one frame is written to the caller, for \<open>tools/call\<close> the error response
  with code -32001 (timeout) and the original id, for \<open>tools/list\<close> the success response
  with the original id and the session's cached tool list. Otherwise nothing is written.
\<close>

theorem timeout_answers_caller_in_caller_map:
  assumes provider: "browserClient (sessionObjects st a) = Some browser"
      and iid: "iid = fst (generateMessageId now (messageCounter st))"
      and sender: "sender_id = (case senderClient of Some sender \<Rightarrow> client_id sender | None \<Rightarrow> [])"
  shows
    "timeouts (handleToolsCall now (Some a) req senderClient st)
       = timeouts st @ [(requestTimeout st, ToolsCallTimeout a iid)]
     \<and> timeouts (handleToolsList now (Some a) req senderClient st)
       = timeouts st @ [(requestTimeout st, ToolsListTimeout a iid)]
     \<and> (map_of (pendingResponses (sessionObjects st2 a)) iid
          = map_of (pendingResponses (sessionObjects (handleToolsCall now (Some a) req senderClient st) a)) iid
        \<longrightarrow>
          map_of (pendingResponses (sessionObjects (timeoutFires (ToolsCallTimeout a iid) st2) a)) iid
            = None
          \<and> (\<forall>r. written (responseObjects (timeoutFires (ToolsCallTimeout a iid) st2) r) =
               (case map_of (agentClients (sessionObjects st2 a)) sender_id of
                  Some agent \<Rightarrow>
                    if r = response agent \<and> \<not> writableEnded (responseObjects st2 (response agent))
                    then written (responseObjects st2 r)
                           @ [sse_data_frame (serializeMessage
                                (JObj [(''jsonrpc'', JStr ''2.0''), (''id'', get_prop req ''id''),
                                       (''error'', JObj [(''code'', JNum (- 32001)),
                                          (''message'', JStr ''Tool execution timeout'')])]))]
                    else written (responseObjects st2 r)
                | None \<Rightarrow> written (responseObjects st2 r))))
     \<and> (map_of (pendingResponses (sessionObjects st2 a)) iid
          = map_of (pendingResponses (sessionObjects (handleToolsList now (Some a) req senderClient st) a)) iid
        \<longrightarrow>
          map_of (pendingResponses (sessionObjects (timeoutFires (ToolsListTimeout a iid) st2) a)) iid
            = None
          \<and> (\<forall>r. written (responseObjects (timeoutFires (ToolsListTimeout a iid) st2) r) =
               (case map_of (agentClients (sessionObjects st2 a)) sender_id of
                  Some agent \<Rightarrow>
                    if r = response agent \<and> \<not> writableEnded (responseObjects st2 (response agent))
                    then written (responseObjects st2 r)
                           @ [sse_data_frame (serializeMessage
                                (JObj [(''jsonrpc'', JStr ''2.0''), (''id'', get_prop req ''id''),
                                       (''result'', JObj [(''tools'', tools (sessionObjects st2 a))])]))]
                    else written (responseObjects st2 r)
                | None \<Rightarrow> written (responseObjects st2 r))))"
proof -
  let ?pending = "\<lparr>agentId = sender_id, originalId = get_prop req ''id'', timestamp = now\<rparr>"
  have call_entry: "map_of (pendingResponses (sessionObjects
        (handleToolsCall now (Some a) req senderClient st) a)) iid = Some ?pending"
    using provider by (simp add: handleToolsCall_forward forward_to_browser_pending iid sender)
  have list_entry: "map_of (pendingResponses (sessionObjects
        (handleToolsList now (Some a) req senderClient st) a)) iid = Some ?pending"
    using provider by (simp add: handleToolsList_forward forward_to_browser_pending iid sender)
  have call_timer: "timeouts (handleToolsCall now (Some a) req senderClient st)
       = timeouts st @ [(requestTimeout st, ToolsCallTimeout a iid)]"
    using provider by (simp add: handleToolsCall_forward forward_to_browser_timeouts iid)
  have list_timer: "timeouts (handleToolsList now (Some a) req senderClient st)
       = timeouts st @ [(requestTimeout st, ToolsListTimeout a iid)]"
    using provider by (simp add: handleToolsList_forward forward_to_browser_timeouts iid)
  have call_fire: "map_of (pendingResponses (sessionObjects st2 a)) iid
          = map_of (pendingResponses (sessionObjects (handleToolsCall now (Some a) req senderClient st) a)) iid
        \<longrightarrow>
          map_of (pendingResponses (sessionObjects (timeoutFires (ToolsCallTimeout a iid) st2) a)) iid
            = None
          \<and> (\<forall>r. written (responseObjects (timeoutFires (ToolsCallTimeout a iid) st2) r) =
               (case map_of (agentClients (sessionObjects st2 a)) sender_id of
                  Some agent \<Rightarrow>
                    if r = response agent \<and> \<not> writableEnded (responseObjects st2 (response agent))
                    then written (responseObjects st2 r)
                           @ [sse_data_frame (serializeMessage
                                (JObj [(''jsonrpc'', JStr ''2.0''), (''id'', get_prop req ''id''),
                                       (''error'', JObj [(''code'', JNum (- 32001)),
                                          (''message'', JStr ''Tool execution timeout'')])]))]
                    else written (responseObjects st2 r)
                | None \<Rightarrow> written (responseObjects st2 r)))"
  proof
    assume "map_of (pendingResponses (sessionObjects st2 a)) iid
          = map_of (pendingResponses (sessionObjects (handleToolsCall now (Some a) req senderClient st) a)) iid"
    then have present: "map_of (pendingResponses (sessionObjects st2 a)) iid = Some ?pending"
      using call_entry by simp
    show "map_of (pendingResponses (sessionObjects (timeoutFires (ToolsCallTimeout a iid) st2) a)) iid
            = None
          \<and> (\<forall>r. written (responseObjects (timeoutFires (ToolsCallTimeout a iid) st2) r) =
               (case map_of (agentClients (sessionObjects st2 a)) sender_id of
                  Some agent \<Rightarrow>
                    if r = response agent \<and> \<not> writableEnded (responseObjects st2 (response agent))
                    then written (responseObjects st2 r)
                           @ [sse_data_frame (serializeMessage
                                (JObj [(''jsonrpc'', JStr ''2.0''), (''id'', get_prop req ''id''),
                                       (''error'', JObj [(''code'', JNum (- 32001)),
                                          (''message'', JStr ''Tool execution timeout'')])]))]
                    else written (responseObjects st2 r)
                | None \<Rightarrow> written (responseObjects st2 r)))"
      using timeoutFires_call [OF present] by (simp split: option.splits)
  qed
  have list_fire: "map_of (pendingResponses (sessionObjects st2 a)) iid
          = map_of (pendingResponses (sessionObjects (handleToolsList now (Some a) req senderClient st) a)) iid
        \<longrightarrow>
          map_of (pendingResponses (sessionObjects (timeoutFires (ToolsListTimeout a iid) st2) a)) iid
            = None
          \<and> (\<forall>r. written (responseObjects (timeoutFires (ToolsListTimeout a iid) st2) r) =
               (case map_of (agentClients (sessionObjects st2 a)) sender_id of
                  Some agent \<Rightarrow>
                    if r = response agent \<and> \<not> writableEnded (responseObjects st2 (response agent))
                    then written (responseObjects st2 r)
                           @ [sse_data_frame (serializeMessage
                                (JObj [(''jsonrpc'', JStr ''2.0''), (''id'', get_prop req ''id''),
                                       (''result'', JObj [(''tools'', tools (sessionObjects st2 a))])]))]
                    else written (responseObjects st2 r)
                | None \<Rightarrow> written (responseObjects st2 r)))"
  proof
    assume "map_of (pendingResponses (sessionObjects st2 a)) iid
          = map_of (pendingResponses (sessionObjects (handleToolsList now (Some a) req senderClient st) a)) iid"
    then have present: "map_of (pendingResponses (sessionObjects st2 a)) iid = Some ?pending"
      using list_entry by simp
    show "map_of (pendingResponses (sessionObjects (timeoutFires (ToolsListTimeout a iid) st2) a)) iid
            = None
          \<and> (\<forall>r. written (responseObjects (timeoutFires (ToolsListTimeout a iid) st2) r) =
               (case map_of (agentClients (sessionObjects st2 a)) sender_id of
                  Some agent \<Rightarrow>
                    if r = response agent \<and> \<not> writableEnded (responseObjects st2 (response agent))
                    then written (responseObjects st2 r)
                           @ [sse_data_frame (serializeMessage
                                (JObj [(''jsonrpc'', JStr ''2.0''), (''id'', get_prop req ''id''),
                                       (''result'', JObj [(''tools'', tools (sessionObjects st2 a))])]))]
                    else written (responseObjects st2 r)
                | None \<Rightarrow> written (responseObjects st2 r)))"
      using timeoutFires_list [OF present] by (simp split: option.splits)
  qed
  from call_timer list_timer call_fire list_fire show ?thesis
    by (intro conjI)
qed

theorem timeout_answers_caller_in_caller_map_witness:
  "timeouts run_called = [(30000, ToolsCallTimeout 1 ''btcp-1003-3'')]
   \<and> map_of (pendingResponses (sessionObjects
        (timeoutFires (ToolsCallTimeout 1 ''btcp-1003-3'') run_called) 1)) ''btcp-1003-3'' = None
   \<and> written (responseObjects (timeoutFires (ToolsCallTimeout 1 ''btcp-1003-3'') run_called) 2)
     = written (responseObjects run_called 2)
         @ [sse_data_frame (serializeMessage
              (JObj [(''jsonrpc'', JStr ''2.0''), (''id'', JNum 7),
                     (''error'', JObj [(''code'', JNum (- 32001)),
                                       (''message'', JStr ''Tool execution timeout'')])]))]
   \<and> written (responseObjects (timeoutFires (ToolsListTimeout 1 ''btcp-1003-3'') run_listed) 2)
     = written (responseObjects run_listed 2)
         @ [sse_data_frame (serializeMessage
              (JObj [(''jsonrpc'', JStr ''2.0''), (''id'', JNum 8),
                     (''result'', JObj [(''tools'', JArr [])])]))]"
proof -
  have provider: "browserClient (sessionObjects run_joined 1) = Some provider_client"
    by (simp add: run_joined_fields)
  have iid: "''btcp-1003-3'' = fst (generateMessageId 1003 (messageCounter run_joined))"
    by (simp add: run_joined_fields internal_id_1003)
  have sender: "''btcp-1001-2''
      = (case Some caller_client of Some sender \<Rightarrow> client_id sender | None \<Rightarrow> [])"
    by simp
  note call = timeout_answers_caller_in_caller_map
                [OF provider iid sender, of call_request run_called, folded run_called_eq]
  note list = timeout_answers_caller_in_caller_map
                [OF provider iid sender, of list_request run_listed, folded run_listed_eq]
  have timer: "timeouts run_called = [(30000, ToolsCallTimeout 1 ''btcp-1003-3'')]"
    using call [THEN conjunct1] by (simp add: run_joined_fields)
  have call_fired:
    "map_of (pendingResponses (sessionObjects
        (timeoutFires (ToolsCallTimeout 1 ''btcp-1003-3'') run_called) 1)) ''btcp-1003-3'' = None
     \<and> (\<forall>r. written (responseObjects (timeoutFires (ToolsCallTimeout 1 ''btcp-1003-3'') run_called) r) =
               (case map_of (agentClients (sessionObjects run_called 1)) ''btcp-1001-2'' of
                  Some agent \<Rightarrow>
                    if r = response agent \<and> \<not> writableEnded (responseObjects run_called (response agent))
                    then written (responseObjects run_called r)
                           @ [sse_data_frame (serializeMessage
                                (JObj [(''jsonrpc'', JStr ''2.0''), (''id'', get_prop call_request ''id''),
                                       (''error'', JObj [(''code'', JNum (- 32001)),
                                          (''message'', JStr ''Tool execution timeout'')])]))]
                    else written (responseObjects run_called r)
                | None \<Rightarrow> written (responseObjects run_called r)))"
    using call [THEN conjunct2, THEN conjunct2, THEN conjunct1] by simp
  have list_fired:
    "map_of (pendingResponses (sessionObjects
        (timeoutFires (ToolsListTimeout 1 ''btcp-1003-3'') run_listed) 1)) ''btcp-1003-3'' = None
     \<and> (\<forall>r. written (responseObjects (timeoutFires (ToolsListTimeout 1 ''btcp-1003-3'') run_listed) r) =
               (case map_of (agentClients (sessionObjects run_listed 1)) ''btcp-1001-2'' of
                  Some agent \<Rightarrow>
                    if r = response agent \<and> \<not> writableEnded (responseObjects run_listed (response agent))
                    then written (responseObjects run_listed r)
                           @ [sse_data_frame (serializeMessage
                                (JObj [(''jsonrpc'', JStr ''2.0''), (''id'', get_prop list_request ''id''),
                                       (''result'', JObj [(''tools'', tools (sessionObjects run_listed 1))])]))]
                    else written (responseObjects run_listed r)
                | None \<Rightarrow> written (responseObjects run_listed r)))"
    using list [THEN conjunct2, THEN conjunct2, THEN conjunct2] by simp
  have call_pushed:
    "written (responseObjects (timeoutFires (ToolsCallTimeout 1 ''btcp-1003-3'') run_called) 2)
     = written (responseObjects run_called 2)
         @ [sse_data_frame (serializeMessage
              (JObj [(''jsonrpc'', JStr ''2.0''), (''id'', JNum 7),
                     (''error'', JObj [(''code'', JNum (- 32001)),
                                       (''message'', JStr ''Tool execution timeout'')])]))]"
    using call_fired [THEN conjunct2, THEN spec, of 2]
    by (simp add: run_called_fields call_request_def get_prop_def)
  have list_pushed:
    "written (responseObjects (timeoutFires (ToolsListTimeout 1 ''btcp-1003-3'') run_listed) 2)
     = written (responseObjects run_listed 2)
         @ [sse_data_frame (serializeMessage
              (JObj [(''jsonrpc'', JStr ''2.0''), (''id'', JNum 8),
                     (''result'', JObj [(''tools'', JArr [])])]))]"
    using list_fired [THEN conjunct2, THEN spec, of 2]
    by (simp add: run_called_fields list_request_def get_prop_def)
  show ?thesis
    using timer call_fired [THEN conjunct1] call_pushed list_pushed by (intro conjI)
qed

text \<open>
  Claim C3 as stated fails. A caller that is attached to the relay but has not joined
  session \<open>E\<close> sends a \<open>tools/call\<close> to \<open>E\<close>, naming itself with its \<open>clientId\<close>. The request
  is forwarded and its entry stored. When the timer fires the entry is removed, but the
  caller is not in the caller map of the session: nothing is written to any stream,
  although the stream of the caller is open.
\<close>

theorem timeout_pushes_nothing_to_unjoined_caller_counterexample:
  "map_of (pendingResponses (sessionObjects run_unjoined_call 1)) ''btcp-1002-3''
     = Some \<lparr>agentId = ''btcp-1001-2'', originalId = JNum 7, timestamp = 1002\<rparr>
   \<and> timeouts run_unjoined_call = [(30000, ToolsCallTimeout 1 ''btcp-1002-3'')]
   \<and> map_of (clients run_unjoined_call) ''btcp-1001-2'' = Some caller_client
   \<and> \<not> writableEnded (responseObjects run_unjoined_call (response caller_client))
   \<and> map_of (pendingResponses (sessionObjects
        (timeoutFires (ToolsCallTimeout 1 ''btcp-1002-3'') run_unjoined_call) 1)) ''btcp-1002-3'' = None
   \<and> responseObjects (timeoutFires (ToolsCallTimeout 1 ''btcp-1002-3'') run_unjoined_call)
     = responseObjects run_unjoined_call"
  by (simp add: run_unjoined_call_fields timeoutFires_def toolsCallTimeoutFires_def Let_def)

section \<open>Tool registration\<close>

text \<open>
  Claim C6, as amended. The relay handles a \<open>tools/register\<close> request without looking at
  its sender: the outcome is the same for every \<open>clientId\<close>. The state is unchanged when
  the session is unknown or has no provider attached. When the session has a provider
  attached and the request has parameters, the tool list of the session becomes the
  \<open>tools\<close> of the request, whoever sent it.
\<close>

theorem tools_register_replaces_tools_for_any_sender:
  assumes "isRequest req" and "get_prop req ''method'' = JStr ''tools/register''"
  shows "routeMessage now sid req clientId st = handleToolsRegister (map_of (sessions st) sid) req st
     \<and> (map_of (sessions st) sid = None \<longrightarrow> routeMessage now sid req clientId st = (None, st))
     \<and> (\<forall>a. map_of (sessions st) sid = Some a \<and> browserClient (sessionObjects st a) = None
            \<longrightarrow> routeMessage now sid req clientId st = (None, st))
     \<and> (\<forall>a. map_of (sessions st) sid = Some a \<and> browserClient (sessionObjects st a) \<noteq> None
              \<and> get_prop req ''params'' \<noteq> JUndefined \<and> get_prop req ''params'' \<noteq> JNull
            \<longrightarrow> tools (sessionObjects (snd (routeMessage now sid req clientId st)) a)
                  = get_prop (get_prop req ''params'') ''tools'')"
proof -
  have route: "routeMessage now sid req clientId st
      = handleToolsRegister (map_of (sessions st) sid) req st"
    using assms by (simp add: routeMessage_def Let_def request_is_no_response)
  have none: "map_of (sessions st) sid = None \<Longrightarrow> routeMessage now sid req clientId st = (None, st)"
    unfolding route by (simp add: handleToolsRegister_def)
  have no_provider: "map_of (sessions st) sid = Some a \<Longrightarrow> browserClient (sessionObjects st a) = None
      \<Longrightarrow> routeMessage now sid req clientId st = (None, st)" for a
    unfolding route by (simp add: handleToolsRegister_def)
  have replaced: "map_of (sessions st) sid = Some a \<Longrightarrow> browserClient (sessionObjects st a) \<noteq> None
      \<Longrightarrow> get_prop req ''params'' \<noteq> JUndefined \<Longrightarrow> get_prop req ''params'' \<noteq> JNull
      \<Longrightarrow> tools (sessionObjects (snd (routeMessage now sid req clientId st)) a)
                  = get_prop (get_prop req ''params'') ''tools''" for a
    unfolding route by (simp add: handleToolsRegister_tools)
  show ?thesis using route none no_provider replaced by blast
qed

theorem tools_register_replaces_tools_for_any_sender_witness:
  "routeMessage 1003 ''E'' register_request (Some ''btcp-1001-2'') run_joined
     = routeMessage 1003 ''E'' register_request None run_joined
   \<and> routeMessage 1003 ''Z'' register_request (Some ''btcp-1000-1'') run_joined = (None, run_joined)
   \<and> tools (sessionObjects
        (snd (routeMessage 1003 ''E'' register_request (Some ''btcp-1000-1'') run_joined)) 1)
     = JArr [JObj [(''name'', JStr ''other''), (''description'', JStr ''a tool of another peer''),
                   (''inputSchema'', JObj [])]]"
proof -
  have req: "isRequest register_request"
    by (simp add: isRequest_def in_op_def register_request_def)
  have register: "get_prop register_request ''method'' = JStr ''tools/register''"
    by (simp add: get_prop_def register_request_def)
  note any = tools_register_replaces_tools_for_any_sender [OF req register]
  have independent: "routeMessage 1003 ''E'' register_request (Some ''btcp-1001-2'') run_joined
     = routeMessage 1003 ''E'' register_request None run_joined"
    using any [of 1003 "''E''" "Some ''btcp-1001-2''" run_joined, THEN conjunct1]
          any [of 1003 "''E''" None run_joined, THEN conjunct1]
    by simp
  have unknown: "routeMessage 1003 ''Z'' register_request (Some ''btcp-1000-1'') run_joined
      = (None, run_joined)"
    using any [of 1003 "''Z''" "Some ''btcp-1000-1''" run_joined, THEN conjunct2, THEN conjunct1]
    by (simp add: run_joined_fields)
  have replaced: "tools (sessionObjects
        (snd (routeMessage 1003 ''E'' register_request (Some ''btcp-1000-1'') run_joined)) 1)
     = JArr [JObj [(''name'', JStr ''other''), (''description'', JStr ''a tool of another peer''),
                   (''inputSchema'', JObj [])]]"
    using any [of 1003 "''E''" "Some ''btcp-1000-1''" run_joined,
               THEN conjunct2, THEN conjunct2, THEN conjunct2, THEN spec, of 1]
    by (simp add: run_joined_fields register_request_def get_prop_def)
  show ?thesis using independent unknown replaced by (intro conjI)
qed

text \<open>
  Claim C6 as stated fails. The caller that joined session \<open>E\<close> sends a \<open>tools/register\<close>
  to \<open>E\<close> under its own \<open>clientId\<close>; it is not the provider of the session, and the tool
  list of the session becomes the one it sent.
\<close>

theorem tools_register_from_caller_counterexample:
  "findSenderClient ''E'' (Some ''btcp-1001-2'') run_joined = Some caller_client
   \<and> browserClient (sessionObjects run_joined 1) = Some provider_client
   \<and> client_id caller_client \<noteq> client_id provider_client
   \<and> tools (sessionObjects run_joined 1) = JArr []
   \<and> tools (sessionObjects
        (snd (routeMessage 1003 ''E'' register_request (Some ''btcp-1001-2'') run_joined)) 1)
     = JArr [JObj [(''name'', JStr ''other''), (''description'', JStr ''a tool of another peer''),
                   (''inputSchema'', JObj [])]]"
  by (simp add: run_joined_sender run_joined_fields routeMessage_def register_request_def
        isResponse_def isRequest_def in_op_def get_prop_def handleToolsRegister_def js_length_def
        sendToAgents_def Let_def)

section \<open>Tool-call failures on the provider side\<close>

text \<open>
  Claim C4, as amended. When the execution of a \<open>tools/call\<close> fails, \<open>handleToolCall\<close>
  answers with a response whose result is one text item holding the failure message
  with \<open>isError\<close> true, paired with a top-level \<open>error\<close> field holding the same message and
  the code -32603 (internal error), whatever the code of the error thrown. In
  particular a call of a tool that is not registered is answered with the message
  \<open>Tool not found: <name>\<close> and the code -32603.
\<close>

theorem handleToolCall_failure_response:
  "(get_prop req ''params'' \<noteq> JUndefined \<and> get_prop req ''params'' \<noteq> JNull
     \<and> execute (executor c) (get_prop (get_prop req ''params'') ''name'')
          (if get_prop (get_prop req ''params'') ''arguments'' = JUndefined then JObj []
           else get_prop (get_prop req ''params'') ''arguments'') = Rejected error
    \<longrightarrow> fst (handleToolCall req c) =
          Fulfilled (JObj [(''jsonrpc'', JStr ''2.0''), (''id'', get_prop req ''id''),
             (''result'', JObj [(''content'', JArr [JObj [(''type'', JStr ''text''),
                                    (''text'', JStr (message_of_thrown error))]]),
                                (''isError'', JBool True)]),
             (''error'', JObj [(''code'', JNum (- 32603)),
                               (''message'', JStr (message_of_thrown error))])]))
   \<and> (get_prop req ''params'' \<noteq> JUndefined \<and> get_prop req ''params'' \<noteq> JNull
     \<and> handlers_get (executor c) (get_prop (get_prop req ''params'') ''name'') = None
    \<longrightarrow> fst (handleToolCall req c) =
          Fulfilled (JObj [(''jsonrpc'', JStr ''2.0''), (''id'', get_prop req ''id''),
             (''result'', JObj [(''content'', JArr [JObj [(''type'', JStr ''text''),
                 (''text'', JStr (''Tool not found: ''
                      @ js_String (get_prop (get_prop req ''params'') ''name'')))]]),
                                (''isError'', JBool True)]),
             (''error'', JObj [(''code'', JNum (- 32603)),
                 (''message'', JStr (''Tool not found: ''
                      @ js_String (get_prop (get_prop req ''params'') ''name'')))])]))"
  by (simp add: handleToolCall_def Let_def emit_def execute_def createToolCallErrorResponse_def
        createToolCallErrorResponse_code_def createTextContent_def message_of_thrown_def
        BTCPToolNotFoundError_def)

theorem handleToolCall_failure_response_witness:
  "fst (handleToolCall failing_tool_call connected_client) =
     Fulfilled (JObj [(''jsonrpc'', JStr ''2.0''), (''id'', JStr ''btcp-1003-3''),
        (''result'', JObj [(''content'', JArr [JObj [(''type'', JStr ''text''),
                               (''text'', JStr ''Tool failed intentionally'')]]),
                           (''isError'', JBool True)]),
        (''error'', JObj [(''code'', JNum (- 32603)),
                          (''message'', JStr ''Tool failed intentionally'')])])"
proof -
  have params: "get_prop failing_tool_call ''params'' \<noteq> JUndefined
      \<and> get_prop failing_tool_call ''params'' \<noteq> JNull"
    by (simp add: failing_tool_call_def get_prop_def)
  have failed: "execute (executor connected_client)
       (get_prop (get_prop failing_tool_call ''params'') ''name'')
       (if get_prop (get_prop failing_tool_call ''params'') ''arguments'' = JUndefined then JObj []
        else get_prop (get_prop failing_tool_call ''params'') ''arguments'')
     = Rejected (ThrownBTCP (BTCPExecutionError ''Tool failed intentionally''))"
    by (simp add: failing_tool_call_def get_prop_def connected_client_def new_BTCPClient_def
          sample_executor_def execute_def handlers_get_def failing_handler_def
          instanceof_BTCPToolNotFoundError_def message_of_thrown_def)
  show ?thesis
    using handleToolCall_failure_response
            [of failing_tool_call connected_client
                "ThrownBTCP (BTCPExecutionError ''Tool failed intentionally'')",
             THEN conjunct1] params failed
    by (simp add: failing_tool_call_def get_prop_def message_of_thrown_def BTCPExecutionError_def)
qed

text \<open>
  Claim C4 as stated fails. A call of the unregistered tool \<open>x\<close> is answered with the
  error code -32603; neither -32004 (tool not found) nor -32003 (execution) appears in
  the response.
\<close>

theorem unknown_tool_error_code_counterexample:
  "handlers_get (executor connected_client) (JStr ''x'') = None
   \<and> fst (handleToolCall unknown_tool_call connected_client) =
     Fulfilled (JObj [(''jsonrpc'', JStr ''2.0''), (''id'', JStr ''btcp-1003-3''),
        (''result'', JObj [(''content'', JArr [JObj [(''type'', JStr ''text''),
                               (''text'', JStr ''Tool not found: x'')]]),
                           (''isError'', JBool True)]),
        (''error'', JObj [(''code'', JNum (- 32603)),
                          (''message'', JStr ''Tool not found: x'')])])
   \<and> JNum (- 32603) \<noteq> JNum TOOL_NOT_FOUND
   \<and> JNum (- 32603) \<noteq> JNum EXECUTION_ERROR"
  by (simp add: unknown_tool_call_def get_prop_def connected_client_def new_BTCPClient_def
        sample_executor_def handleToolCall_def emit_def execute_def handlers_get_def
        createToolCallErrorResponse_def createToolCallErrorResponse_code_def
        createTextContent_def message_of_thrown_def BTCPToolNotFoundError_def
        TOOL_NOT_FOUND_def EXECUTION_ERROR_def Let_def)

section \<open>Disconnecting the peer client\<close>





section \<open>Caller disconnect and session clean-up\<close>

text \<open>
  Claim C5, evaluated where the program departs from it. The caller attached under
  session id \<open>A\<close> and joined session \<open>E\<close>. When its push channel closes, \<open>handleDisconnect\<close>
  looks for the session named by the client's own session id, finds none, and only
  forgets the client: the caller stays in the caller map of \<open>E\<close>. When the provider then
  disconnects too, \<open>E\<close> has no provider and no live caller, yet it stays in the
  \<open>sessions\<close> map with the stale caller entry.
\<close>

theorem caller_disconnect_leaves_joined_session_evaluation:
  "sessionId caller_client = ''A''
   \<and> map_of (agentClients (sessionObjects run_joined 1)) ''btcp-1001-2'' = Some caller_client
   \<and> map_of (clients (handleDisconnect ''btcp-1001-2'' run_joined)) ''btcp-1001-2'' = None
   \<and> map_of (agentClients (sessionObjects (handleDisconnect ''btcp-1001-2'' run_joined) 1))
        ''btcp-1001-2'' = Some caller_client
   \<and> clients (handleDisconnect ''btcp-1000-1'' (handleDisconnect ''btcp-1001-2'' run_joined)) = []
   \<and> sessions (handleDisconnect ''btcp-1000-1'' (handleDisconnect ''btcp-1001-2'' run_joined))
       = [(''E'', 1)]
   \<and> browserClient (sessionObjects
        (handleDisconnect ''btcp-1000-1'' (handleDisconnect ''btcp-1001-2'' run_joined)) 1) = None
   \<and> agentClients (sessionObjects
        (handleDisconnect ''btcp-1000-1'' (handleDisconnect ''btcp-1001-2'' run_joined)) 1)
       = [(''btcp-1001-2'', caller_client)]"
  by (simp add: handleDisconnect_def run_joined_fields Let_def
        delete_conv' sendToAgents_def)

end
